theory Spec2Isabelle
  imports Main "HOL-Library.Word" "HOL-Library.AList" "HOL-Library.List_Lexorder"
    "HOL-Library.Char_ord"
begin

section \<open>Python values and exceptions\<close>

text \<open>
  Byte strings (\<^verbatim>\<open>bytes\<close>) are lists of 8-bit words; text strings are \<^typ>\<open>string\<close>.
  Every operation of the three storage classes is a function from the state of what it
  talks to (a file system, an S3 endpoint, an Azure account) to a result and the state
  afterwards. The result is \<open>Inl e\<close> when the Python method raises \<open>e\<close> and \<open>Inr v\<close>
  when it returns \<open>v\<close>; the state is returned in both cases, since a raised exception
  does not undo what was done before it.
\<close>

type_synonym byte = "8 word"
type_synonym bytes = "byte list"

datatype exn =
    FileNotFoundError
  | NotADirectoryError
  | IsADirectoryError
  | FileExistsError
  | ValueError string
  | ImportError string
  | ClientError string
  | NoCredentialsError
  | EndpointConnectionError
  | ResourceExistsError
  | ResourceNotFoundError
  | HttpResponseError string

text \<open>
  The first argument of \<^verbatim>\<open>upload_file\<close>: an object with a \<^verbatim>\<open>read\<close> method (a stream
  with its buffer and its current position), or a raw \<^verbatim>\<open>bytes\<close> value. The position of
  the caller's stream after the call is not part of the model.
\<close>

record stream =
  data :: bytes
  pos :: nat

datatype file_stream = Stream stream | Bytes bytes

definition read_all :: "stream \<Rightarrow> bytes" where
  "read_all s = drop (pos s) (data s)"

text \<open>One entry of the list returned by \<^verbatim>\<open>list_files\<close> (a dict with these five keys).\<close>

record file_info =
  name :: string
  url :: string
  size' :: nat
  created :: string
  content_type :: string

section \<open>The operating system: paths, directories, files\<close>

text \<open>
  A POSIX file system without symbolic links and without permission or disk-space
  failures. A node is addressed by its absolute path, a list of components; the root is
  the empty list and always a directory. \<open>st_ctime_us\<close> is the time of the last change
  of a file in microseconds since the epoch, the resolution of \<^verbatim>\<open>datetime\<close>.
  The order in which \<^verbatim>\<open>os.listdir\<close> enumerates a directory is the file system's own
  (a hash of the name, the age of the entry, ...): it is the order of \<open>listdir_key\<close>, a
  parameter of the state, so that every order of the entries is the enumeration of some
  state.
\<close>

type_synonym path = "string list"

datatype node = File (content: bytes) (st_ctime_us: nat) | Dir

record filesystem =
  nodes :: "(path \<times> node) list"
  cwd :: path
  now :: nat
  utc_offset :: int
  listdir_key :: "string \<Rightarrow> nat"

definition lookup :: "filesystem \<Rightarrow> path \<Rightarrow> node option" where
  "lookup fs p = (if p = [] then Some Dir else map_of (nodes fs) p)"

definition is_dir :: "filesystem \<Rightarrow> path \<Rightarrow> bool" where
  "is_dir fs p = (lookup fs p = Some Dir)"

text \<open>\<^verbatim>\<open>posixpath.join\<close> with two arguments.\<close>

definition os_path_join :: "string \<Rightarrow> string \<Rightarrow> string" where
  "os_path_join a b =
     (if b \<noteq> [] \<and> hd b = CHR ''/'' then b
      else if a = [] \<or> last a = CHR ''/'' then a @ b
      else a @ ''/'' @ b)"

fun split_sep :: "string \<Rightarrow> string list" where
  "split_sep [] = [[]]"
| "split_sep (c # cs) =
     (if c = CHR ''/'' then [] # split_sep cs
      else (case split_sep cs of
              [] \<Rightarrow> [[c]]
            | w # ws \<Rightarrow> (c # w) # ws))"

text \<open>
  Path resolution as the kernel does it: every component but the last is looked up in a
  directory that exists; the last one may name nothing yet. The entry \<open>..\<close> of a
  directory is its parent, which is a directory in every file system; a state where it is
  not one makes the lookup fail.
\<close>

fun walk :: "filesystem \<Rightarrow> path \<Rightarrow> string list \<Rightarrow> exn + path" where
  "walk fs cur [] = Inr cur"
| "walk fs cur (c # cs) =
     (if \<not> is_dir fs cur then
        Inl (if lookup fs cur = None then FileNotFoundError else NotADirectoryError)
      else if c = [] \<or> c = ''.'' then walk fs cur cs
      else if c = ''..'' then
        (if is_dir fs (butlast cur) then walk fs (butlast cur) cs else Inl FileNotFoundError)
      else walk fs (cur @ [c]) cs)"

definition start_dir :: "filesystem \<Rightarrow> string \<Rightarrow> path" where
  "start_dir fs s = (if s \<noteq> [] \<and> hd s = CHR ''/'' then [] else cwd fs)"

definition resolve :: "filesystem \<Rightarrow> string \<Rightarrow> exn + path" where
  "resolve fs s =
     (if CHR 0x00 \<in> set s then Inl (ValueError ''embedded null byte'')
      else if s = [] then Inl FileNotFoundError
      else walk fs (start_dir fs s) (split_sep s))"

definition os_path_exists :: "filesystem \<Rightarrow> string \<Rightarrow> bool" where
  "os_path_exists fs s =
     (case resolve fs s of Inl e \<Rightarrow> False | Inr p \<Rightarrow> lookup fs p \<noteq> None)"

definition os_path_isdir :: "filesystem \<Rightarrow> string \<Rightarrow> bool" where
  "os_path_isdir fs s =
     (case resolve fs s of Inl e \<Rightarrow> False | Inr p \<Rightarrow> is_dir fs p)"

text \<open>
  \<^verbatim>\<open>os.makedirs(name, exist_ok=True)\<close>: every missing directory on the way is created;
  a regular file on the way makes it raise.
\<close>

fun mkdirs :: "filesystem \<Rightarrow> path \<Rightarrow> string list \<Rightarrow> (exn + unit) \<times> filesystem" where
  "mkdirs fs cur [] = (Inr (), fs)"
| "mkdirs fs cur (c # cs) =
     (if \<not> is_dir fs cur then
        (Inl (if lookup fs cur = None then FileNotFoundError else NotADirectoryError), fs)
      else if c = [] \<or> c = ''.'' then mkdirs fs cur cs
      else if c = ''..'' then
        (if is_dir fs (butlast cur) then mkdirs fs (butlast cur) cs
         else (Inl FileNotFoundError, fs))
      else (case lookup fs (cur @ [c]) of
              None \<Rightarrow> mkdirs (fs\<lparr>nodes := nodes fs @ [(cur @ [c], Dir)]\<rparr>) (cur @ [c]) cs
            | Some Dir \<Rightarrow> mkdirs fs (cur @ [c]) cs
            | Some (File b t) \<Rightarrow>
                (Inl (if cs = [] then FileExistsError else NotADirectoryError), fs)))"

definition os_makedirs :: "filesystem \<Rightarrow> string \<Rightarrow> (exn + unit) \<times> filesystem" where
  "os_makedirs fs s =
     (if CHR 0x00 \<in> set s then (Inl (ValueError ''embedded null byte''), fs)
      else if s = [] then (Inl FileNotFoundError, fs)
      else mkdirs fs (start_dir fs s) (split_sep s))"

text \<open>
  \<^verbatim>\<open>open(path, 'wb')\<close> creates the file or truncates it, and gives a handle, here the
  resolved path; \<^verbatim>\<open>f.write\<close> appends to what the handle has written so far.
\<close>

definition open_wb :: "filesystem \<Rightarrow> string \<Rightarrow> (exn + path) \<times> filesystem" where
  "open_wb fs s =
     (case resolve fs s of
        Inl e \<Rightarrow> (Inl e, fs)
      | Inr p \<Rightarrow>
          if is_dir fs p then (Inl IsADirectoryError, fs)
          else if \<not> is_dir fs (butlast p) then (Inl FileNotFoundError, fs)
          else (Inr p, fs\<lparr>nodes := AList.update p (File [] (now fs)) (nodes fs)\<rparr>))"

definition f_write :: "filesystem \<Rightarrow> path \<Rightarrow> bytes \<Rightarrow> filesystem" where
  "f_write fs f b =
     (case lookup fs f of
        Some (File c t) \<Rightarrow> fs\<lparr>nodes := AList.update f (File (c @ b) (now fs)) (nodes fs)\<rparr>
      | _ \<Rightarrow> fs)"

definition shutil_copyfileobj :: "filesystem \<Rightarrow> stream \<Rightarrow> path \<Rightarrow> filesystem" where
  "shutil_copyfileobj fs src f = f_write fs f (read_all src)"

text \<open>\<^verbatim>\<open>open(path, 'rb')\<close> followed by \<^verbatim>\<open>f.read()\<close>.\<close>

definition open_rb_read :: "filesystem \<Rightarrow> string \<Rightarrow> exn + bytes" where
  "open_rb_read fs s =
     (case resolve fs s of
        Inl e \<Rightarrow> Inl e
      | Inr p \<Rightarrow>
          (case lookup fs p of
             None \<Rightarrow> Inl FileNotFoundError
           | Some Dir \<Rightarrow> Inl IsADirectoryError
           | Some (File c t) \<Rightarrow> Inr c))"

definition os_remove :: "filesystem \<Rightarrow> string \<Rightarrow> (exn + unit) \<times> filesystem" where
  "os_remove fs s =
     (case resolve fs s of
        Inl e \<Rightarrow> (Inl e, fs)
      | Inr p \<Rightarrow>
          (case lookup fs p of
             None \<Rightarrow> (Inl FileNotFoundError, fs)
           | Some Dir \<Rightarrow> (Inl IsADirectoryError, fs)
           | Some (File c t) \<Rightarrow> (Inr (), fs\<lparr>nodes := AList.delete p (nodes fs)\<rparr>)))"

definition os_listdir :: "filesystem \<Rightarrow> string \<Rightarrow> exn + string list" where
  "os_listdir fs s =
     (case resolve fs s of
        Inl e \<Rightarrow> Inl e
      | Inr p \<Rightarrow>
          if lookup fs p = None then Inl FileNotFoundError
          else if \<not> is_dir fs p then Inl NotADirectoryError
          else Inr (sort_key (listdir_key fs)
                      (map (\<lambda>(q, n). last q)
                         (filter (\<lambda>(q, n). q \<noteq> [] \<and> butlast q = p) (nodes fs)))))"

text \<open>
  \<^verbatim>\<open>os.stat\<close>, of which the program reads \<^verbatim>\<open>st_size\<close> and \<^verbatim>\<open>st_ctime\<close>, and only of
  regular files; a directory has no time stamp in this state, and gets a fixed answer.
\<close>

record stat_result =
  st_size :: nat
  st_ctime :: nat

definition os_stat :: "filesystem \<Rightarrow> string \<Rightarrow> exn + stat_result" where
  "os_stat fs s =
     (case resolve fs s of
        Inl e \<Rightarrow> Inl e
      | Inr p \<Rightarrow>
          (case lookup fs p of
             None \<Rightarrow> Inl FileNotFoundError
           | Some Dir \<Rightarrow> Inr \<lparr>st_size = 4096, st_ctime = 0\<rparr>
           | Some (File c t) \<Rightarrow> Inr \<lparr>st_size = length c, st_ctime = t\<rparr>))"

section \<open>The standard library: timestamps and MIME types\<close>

text \<open>
  \<^verbatim>\<open>datetime.fromtimestamp\<close> in a zone at a fixed offset from UTC (daylight saving time is
  not modelled), from a time stamp in microseconds; the proleptic Gregorian calendar.
  Python raises for a year outside 1..9999.
\<close>

record datetime =
  year :: int
  month :: int
  day :: int
  hour :: int
  minute :: int
  second :: int
  microsecond :: int

definition era :: "int \<Rightarrow> int" where
  "era z = z div 146097"

definition doe :: "int \<Rightarrow> int" where
  "doe z = z - era z * 146097"

definition yoe :: "int \<Rightarrow> int" where
  "yoe z = (doe z - doe z div 1460 + doe z div 36524 - doe z div 146096) div 365"

definition doy :: "int \<Rightarrow> int" where
  "doy z = doe z - (365 * yoe z + yoe z div 4 - yoe z div 100)"

definition mp :: "int \<Rightarrow> int" where
  "mp z = (5 * doy z + 2) div 153"

definition civil_day :: "int \<Rightarrow> int" where
  "civil_day z = doy z - (153 * mp z + 2) div 5 + 1"

definition civil_month :: "int \<Rightarrow> int" where
  "civil_month z = (if mp z < 10 then mp z + 3 else mp z - 9)"

definition civil_year :: "int \<Rightarrow> int" where
  "civil_year z = yoe z + era z * 400 + (if civil_month z \<le> 2 then 1 else 0)"

text \<open>The date of a day counted from 1 January 1970, by way of the day count from 1 March 0000.\<close>

definition civil_from_days :: "int \<Rightarrow> int \<times> int \<times> int" where
  "civil_from_days z0 =
     (civil_year (z0 + 719468), civil_month (z0 + 719468), civil_day (z0 + 719468))"

definition local_seconds :: "int \<Rightarrow> nat \<Rightarrow> int" where
  "local_seconds offset us = int (us div 1000000) + offset"

definition datetime_fromtimestamp :: "int \<Rightarrow> nat \<Rightarrow> exn + datetime" where
  "datetime_fromtimestamp offset us =
     (case civil_from_days (local_seconds offset us div 86400) of
        (y, m, d) \<Rightarrow>
          if y < 1 \<or> 9999 < y then Inl (ValueError ''year is out of range'')
          else Inr \<lparr>year = y, month = m, day = d,
                    hour = local_seconds offset us mod 86400 div 3600,
                    minute = local_seconds offset us mod 86400 mod 3600 div 60,
                    second = local_seconds offset us mod 86400 mod 60,
                    microsecond = int (us mod 1000000)\<rparr>)"

definition digit :: "int \<Rightarrow> char" where
  "digit d = ''0123456789'' ! nat (d mod 10)"

definition pad2 :: "int \<Rightarrow> string" where
  "pad2 n = [digit (n div 10), digit n]"

definition pad4 :: "int \<Rightarrow> string" where
  "pad4 n = [digit (n div 1000), digit (n div 100), digit (n div 10), digit n]"

text \<open>\<^verbatim>\<open>dt.strftime('%Y-%m-%d %H:%M:%S')\<close>, the only format the program uses.\<close>

definition strftime :: "datetime \<Rightarrow> string" where
  "strftime dt =
     pad4 (year dt) @ ''-'' @ pad2 (month dt) @ ''-'' @ pad2 (day dt) @ '' '' @
     pad2 (hour dt) @ '':'' @ pad2 (minute dt) @ '':'' @ pad2 (second dt)"

text \<open>
  \<^verbatim>\<open>mimetypes.guess_type(filename)[0]\<close>: the table of the Python installation is not part
  of the repository, so the lookup is a parameter of every function that calls it.
\<close>

type_synonym mimetypes = "string \<Rightarrow> string option"

definition content_type_of :: "mimetypes \<Rightarrow> string \<Rightarrow> string" where
  "content_type_of guess_type filename =
     (case guess_type filename of
        None \<Rightarrow> ''application/octet-stream''
      | Some t \<Rightarrow> t)"

text \<open>
  \<^verbatim>\<open>xs.sort(key=k, reverse=True)\<close>: CPython reverses the list, sorts it stably in
  ascending order and reverses it again, so elements with equal keys keep their order.
\<close>

definition sort_reverse :: "('a \<Rightarrow> 'k::linorder) \<Rightarrow> 'a list \<Rightarrow> 'a list" where
  "sort_reverse k xs = rev (sort_key k (rev xs))"

section \<open>local\_storage\_service.py\<close>

record LocalFileStorage =
  storage_path :: string
  container_name :: string
  full_path :: string

definition LocalFileStorage_init :: "string \<Rightarrow> string \<Rightarrow> LocalFileStorage" where
  "LocalFileStorage_init sp cn =
     \<lparr>storage_path = sp, container_name = cn, full_path = os_path_join sp cn\<rparr>"

definition LocalFileStorage_create_container ::
    "LocalFileStorage \<Rightarrow> filesystem \<Rightarrow> (exn + bool) \<times> filesystem" where
  "LocalFileStorage_create_container self fs =
     (case os_makedirs fs (full_path self) of
        (Inl e, fs') \<Rightarrow> (Inl e, fs')
      | (Inr u, fs') \<Rightarrow> (Inr True, fs'))"

definition local_url :: "LocalFileStorage \<Rightarrow> string \<Rightarrow> string" where
  "local_url self filename =
     ''/'' @ storage_path self @ ''/'' @ container_name self @ ''/'' @ filename"

definition LocalFileStorage_upload_file ::
    "LocalFileStorage \<Rightarrow> filesystem \<Rightarrow> file_stream \<Rightarrow> string \<Rightarrow> (exn + string) \<times> filesystem" where
  "LocalFileStorage_upload_file self fs file_stream filename =
     (case LocalFileStorage_create_container self fs of
        (Inl e, fs1) \<Rightarrow> (Inl e, fs1)
      | (Inr ok, fs1) \<Rightarrow>
          (let file_path = os_path_join (full_path self) filename in
           case open_wb fs1 file_path of
             (Inl e, fs2) \<Rightarrow> (Inl e, fs2)
           | (Inr f, fs2) \<Rightarrow>
               (let fs3 = (case file_stream of
                             Stream s \<Rightarrow> shutil_copyfileobj fs2 s f
                           | Bytes b \<Rightarrow> f_write fs2 f b)
                in (Inr (local_url self filename), fs3))))"

definition LocalFileStorage_download_file ::
    "LocalFileStorage \<Rightarrow> filesystem \<Rightarrow> string \<Rightarrow> exn + bytes" where
  "LocalFileStorage_download_file self fs filename =
     (let file_path = os_path_join (full_path self) filename in
      if \<not> os_path_exists fs file_path then Inl FileNotFoundError
      else open_rb_read fs file_path)"

definition LocalFileStorage_delete_file ::
    "LocalFileStorage \<Rightarrow> filesystem \<Rightarrow> string \<Rightarrow> (exn + bool) \<times> filesystem" where
  "LocalFileStorage_delete_file self fs filename =
     (let file_path = os_path_join (full_path self) filename in
      if \<not> os_path_exists fs file_path then (Inr False, fs)
      else (case os_remove fs file_path of
              (Inl e, fs') \<Rightarrow> (Inl e, fs')
            | (Inr u, fs') \<Rightarrow> (Inr True, fs')))"

fun list_files_loop ::
    "mimetypes \<Rightarrow> LocalFileStorage \<Rightarrow> filesystem \<Rightarrow> string list \<Rightarrow> exn + file_info list" where
  "list_files_loop guess_type self fs [] = Inr []"
| "list_files_loop guess_type self fs (filename # rest) =
     (let file_path = os_path_join (full_path self) filename in
      if os_path_isdir fs file_path then list_files_loop guess_type self fs rest
      else
        (case os_stat fs file_path of
           Inl e \<Rightarrow> Inl e
         | Inr stats \<Rightarrow>
             (case datetime_fromtimestamp (utc_offset fs) (st_ctime stats) of
                Inl e \<Rightarrow> Inl e
              | Inr dt \<Rightarrow>
                  (case list_files_loop guess_type self fs rest of
                     Inl e \<Rightarrow> Inl e
                   | Inr file_list \<Rightarrow>
                       Inr (\<lparr>name = filename,
                             url = local_url self filename,
                             size' = st_size stats,
                             created = strftime dt,
                             content_type = content_type_of guess_type filename\<rparr>
                            # file_list)))))"

definition LocalFileStorage_list_files ::
    "mimetypes \<Rightarrow> LocalFileStorage \<Rightarrow> filesystem \<Rightarrow> exn + file_info list" where
  "LocalFileStorage_list_files guess_type self fs =
     (if \<not> os_path_exists fs (full_path self) then Inr []
      else (case os_listdir fs (full_path self) of
              Inl e \<Rightarrow> Inl e
            | Inr names \<Rightarrow>
                (case list_files_loop guess_type self fs names of
                   Inl e \<Rightarrow> Inl e
                 | Inr file_list \<Rightarrow> Inr (sort_reverse created file_list))))"

text \<open>
  \<^verbatim>\<open>os.path.exists\<close> raises nothing, so the \<^verbatim>\<open>except\<close> branch of \<^verbatim>\<open>file_exists\<close> is
  never taken.
\<close>

definition LocalFileStorage_file_exists :: "LocalFileStorage \<Rightarrow> filesystem \<Rightarrow> string \<Rightarrow> bool" where
  "LocalFileStorage_file_exists self fs filename =
     os_path_exists fs (os_path_join (full_path self) filename)"

definition LocalFileStorage_get_file_url :: "LocalFileStorage \<Rightarrow> string \<Rightarrow> int \<Rightarrow> string" where
  "LocalFileStorage_get_file_url self filename expiry_hours = local_url self filename"

text \<open>
  An object name that is one path component: not empty, no separator, no NUL, and neither
  of the two directory entries \<open>.\<close> and \<open>..\<close>.
\<close>

definition valid_name :: "string \<Rightarrow> bool" where
  "valid_name n =
     (n \<noteq> [] \<and> CHR ''/'' \<notin> set n \<and> CHR 0x00 \<notin> set n \<and> n \<noteq> ''.'' \<and> n \<noteq> ''..'')"

section \<open>The S3 endpoint behind boto3\<close>

text \<open>
  The state of the remote service and a schedule of faults: every call of the SDK takes the
  next entry of the schedule, and raises it when it is an exception (a network failure, a
  denied request, an error status), without touching the buckets. An empty schedule means
  that every call reaches the service.
\<close>

record s3_object =
  Body :: bytes
  ContentType :: string
  CacheControl :: string
  LastModified :: datetime

record policy_statement =
  Sid :: string
  Effect :: string
  Principal :: string
  Action :: string
  Resource :: string

record public_access_block =
  BlockPublicAcls :: bool
  IgnorePublicAcls :: bool
  BlockPublicPolicy :: bool
  RestrictPublicBuckets :: bool

record s3_bucket =
  objects :: "(string \<times> s3_object) list"
  bucket_policy :: "policy_statement list option"
  access_block :: "public_access_block option"
  LocationConstraint :: "string option"

record s3_service =
  buckets :: "(string \<times> s3_bucket) list"
  s3_faults :: "exn option list"
  s3_now :: datetime

definition s3_call :: "s3_service \<Rightarrow> exn option \<times> s3_service" where
  "s3_call s = (case s3_faults s of [] \<Rightarrow> (None, s) | f # r \<Rightarrow> (f, s\<lparr>s3_faults := r\<rparr>))"

definition boto3_client :: "s3_service \<Rightarrow> (string \<times> string) option \<Rightarrow> string \<Rightarrow> (exn + unit) \<times> s3_service" where
  "boto3_client s credentials region =
     (case s3_call s of (Some e, s') \<Rightarrow> (Inl e, s') | (None, s') \<Rightarrow> (Inr (), s'))"

definition head_bucket :: "s3_service \<Rightarrow> string \<Rightarrow> (exn + unit) \<times> s3_service" where
  "head_bucket s b =
     (case s3_call s of
        (Some e, s') \<Rightarrow> (Inl e, s')
      | (None, s') \<Rightarrow>
          (case map_of (buckets s') b of
             None \<Rightarrow> (Inl (ClientError ''404''), s')
           | Some bk \<Rightarrow> (Inr (), s')))"

definition create_bucket :: "s3_service \<Rightarrow> string \<Rightarrow> string option \<Rightarrow> (exn + unit) \<times> s3_service" where
  "create_bucket s b loc =
     (case s3_call s of
        (Some e, s') \<Rightarrow> (Inl e, s')
      | (None, s') \<Rightarrow>
          (case map_of (buckets s') b of
             Some bk \<Rightarrow> (Inl (ClientError ''BucketAlreadyOwnedByYou''), s')
           | None \<Rightarrow>
               (Inr (), s'\<lparr>buckets := buckets s' @
                  [(b, \<lparr>objects = [], bucket_policy = None, access_block = None,
                        LocationConstraint = loc\<rparr>)]\<rparr>)))"

definition put_bucket_policy ::
    "s3_service \<Rightarrow> string \<Rightarrow> policy_statement list \<Rightarrow> (exn + unit) \<times> s3_service" where
  "put_bucket_policy s b pol =
     (case s3_call s of
        (Some e, s') \<Rightarrow> (Inl e, s')
      | (None, s') \<Rightarrow>
          (case map_of (buckets s') b of
             None \<Rightarrow> (Inl (ClientError ''NoSuchBucket''), s')
           | Some bk \<Rightarrow>
               (Inr (), s'\<lparr>buckets :=
                  AList.update b (bk\<lparr>bucket_policy := Some pol\<rparr>) (buckets s')\<rparr>)))"

definition put_public_access_block ::
    "s3_service \<Rightarrow> string \<Rightarrow> public_access_block \<Rightarrow> (exn + unit) \<times> s3_service" where
  "put_public_access_block s b cfg =
     (case s3_call s of
        (Some e, s') \<Rightarrow> (Inl e, s')
      | (None, s') \<Rightarrow>
          (case map_of (buckets s') b of
             None \<Rightarrow> (Inl (ClientError ''NoSuchBucket''), s')
           | Some bk \<Rightarrow>
               (Inr (), s'\<lparr>buckets :=
                  AList.update b (bk\<lparr>access_block := Some cfg\<rparr>) (buckets s')\<rparr>)))"

text \<open>
  \<^verbatim>\<open>upload_fileobj\<close> refuses an argument without a \<^verbatim>\<open>read\<close> method before it sends
  anything.
\<close>

definition upload_fileobj ::
    "s3_service \<Rightarrow> file_stream \<Rightarrow> string \<Rightarrow> string \<Rightarrow> string \<Rightarrow> string \<Rightarrow> (exn + unit) \<times> s3_service" where
  "upload_fileobj s fileobj b key ctype cache =
     (case fileobj of
        Bytes raw \<Rightarrow> (Inl (ValueError ''Fileobj must implement read''), s)
      | Stream st \<Rightarrow>
          (case s3_call s of
             (Some e, s') \<Rightarrow> (Inl e, s')
           | (None, s') \<Rightarrow>
               (case map_of (buckets s') b of
                  None \<Rightarrow> (Inl (ClientError ''NoSuchBucket''), s')
                | Some bk \<Rightarrow>
                    (Inr (), s'\<lparr>buckets := AList.update b
                       (bk\<lparr>objects := AList.update key
                            \<lparr>Body = read_all st, ContentType = ctype, CacheControl = cache,
                             LastModified = s3_now s'\<rparr> (objects bk)\<rparr>)
                       (buckets s')\<rparr>))))"

definition get_object :: "s3_service \<Rightarrow> string \<Rightarrow> string \<Rightarrow> (exn + bytes) \<times> s3_service" where
  "get_object s b key =
     (case s3_call s of
        (Some e, s') \<Rightarrow> (Inl e, s')
      | (None, s') \<Rightarrow>
          (case map_of (buckets s') b of
             None \<Rightarrow> (Inl (ClientError ''NoSuchBucket''), s')
           | Some bk \<Rightarrow>
               (case map_of (objects bk) key of
                  None \<Rightarrow> (Inl (ClientError ''NoSuchKey''), s')
                | Some ob \<Rightarrow> (Inr (Body ob), s'))))"

text \<open>S3 answers a delete of a key that is not there like any other delete.\<close>

definition delete_object :: "s3_service \<Rightarrow> string \<Rightarrow> string \<Rightarrow> (exn + unit) \<times> s3_service" where
  "delete_object s b key =
     (case s3_call s of
        (Some e, s') \<Rightarrow> (Inl e, s')
      | (None, s') \<Rightarrow>
          (case map_of (buckets s') b of
             None \<Rightarrow> (Inl (ClientError ''NoSuchBucket''), s')
           | Some bk \<Rightarrow>
               (Inr (), s'\<lparr>buckets :=
                  AList.update b (bk\<lparr>objects := AList.delete key (objects bk)\<rparr>) (buckets s')\<rparr>)))"

text \<open>One page of at most 1000 keys; the program asks for no further page.\<close>

definition list_objects_v2 ::
    "s3_service \<Rightarrow> string \<Rightarrow> (exn + (string \<times> s3_object) list) \<times> s3_service" where
  "list_objects_v2 s b =
     (case s3_call s of
        (Some e, s') \<Rightarrow> (Inl e, s')
      | (None, s') \<Rightarrow>
          (case map_of (buckets s') b of
             None \<Rightarrow> (Inl (ClientError ''NoSuchBucket''), s')
           | Some bk \<Rightarrow> (Inr (take 1000 (objects bk)), s')))"

definition head_object :: "s3_service \<Rightarrow> string \<Rightarrow> string \<Rightarrow> (exn + unit) \<times> s3_service" where
  "head_object s b key =
     (case s3_call s of
        (Some e, s') \<Rightarrow> (Inl e, s')
      | (None, s') \<Rightarrow>
          (case map_of (buckets s') b of
             None \<Rightarrow> (Inl (ClientError ''404''), s')
           | Some bk \<Rightarrow>
               (case map_of (objects bk) key of
                  None \<Rightarrow> (Inl (ClientError ''404''), s')
                | Some ob \<Rightarrow> (Inr (), s'))))"

section \<open>aws\_storage\_service.py\<close>

record AWSS3Storage =
  bucket_name :: string
  region_name :: string

definition AWSS3Storage_init ::
    "string option \<Rightarrow> string option \<Rightarrow> string \<Rightarrow> string \<Rightarrow> s3_service \<Rightarrow>
     (exn + AWSS3Storage) \<times> s3_service" where
  "AWSS3Storage_init aws_access_key_id aws_secret_access_key region bucket s =
     (case (case (aws_access_key_id, aws_secret_access_key) of
              (Some k, Some sk) \<Rightarrow>
                if k \<noteq> [] \<and> sk \<noteq> [] then boto3_client s (Some (k, sk)) region
                else boto3_client s None region
            | _ \<Rightarrow> boto3_client s None region) of
        (Inl e, s') \<Rightarrow> (Inl e, s')
      | (Inr u, s') \<Rightarrow> (Inr \<lparr>bucket_name = bucket, region_name = region\<rparr>, s'))"

definition public_read_policy :: "string \<Rightarrow> policy_statement list" where
  "public_read_policy bucket =
     [\<lparr>Sid = ''PublicReadGetObject'', Effect = ''Allow'', Principal = ''*'',
       Action = ''s3:GetObject'', Resource = ''arn:aws:s3:::'' @ bucket @ ''/*''\<rparr>]"

definition AWSS3Storage_create_container ::
    "AWSS3Storage \<Rightarrow> s3_service \<Rightarrow> (exn + bool) \<times> s3_service" where
  "AWSS3Storage_create_container self s =
     (case head_bucket s (bucket_name self) of
        (Inr u, s1) \<Rightarrow> (Inr True, s1)
      | (Inl e, s1) \<Rightarrow>
          (case e of
             ClientError error_code \<Rightarrow>
               if error_code = ''404'' then
                 (case (if region_name self = ''us-east-1''
                        then create_bucket s1 (bucket_name self) None
                        else create_bucket s1 (bucket_name self) (Some (region_name self))) of
                    (Inl e2, s2) \<Rightarrow> (Inl e2, s2)
                  | (Inr u2, s2) \<Rightarrow>
                      (case put_bucket_policy s2 (bucket_name self)
                              (public_read_policy (bucket_name self)) of
                         (Inl e3, s3) \<Rightarrow> (Inl e3, s3)
                       | (Inr u3, s3) \<Rightarrow>
                           (case put_public_access_block s3 (bucket_name self)
                                   \<lparr>BlockPublicAcls = True, IgnorePublicAcls = True,
                                    BlockPublicPolicy = False, RestrictPublicBuckets = False\<rparr> of
                              (Inl e4, s4) \<Rightarrow> (Inl e4, s4)
                            | (Inr u4, s4) \<Rightarrow> (Inr True, s4))))
               else (Inl e, s1)
           | _ \<Rightarrow> (Inl e, s1)))"

definition aws_url :: "AWSS3Storage \<Rightarrow> string \<Rightarrow> string" where
  "aws_url self key =
     ''https://'' @ bucket_name self @ ''.s3.'' @ region_name self @ ''.amazonaws.com/'' @ key"

text \<open>A stream has \<^verbatim>\<open>seek\<close> and is rewound; a \<^verbatim>\<open>bytes\<close> value has not.\<close>

definition AWSS3Storage_upload_file ::
    "mimetypes \<Rightarrow> AWSS3Storage \<Rightarrow> s3_service \<Rightarrow> file_stream \<Rightarrow> string \<Rightarrow>
     (exn + string) \<times> s3_service" where
  "AWSS3Storage_upload_file guess_type self s file_stream filename =
     (let ctype = content_type_of guess_type filename;
          rewound = (case file_stream of
                       Stream st \<Rightarrow> Stream (st\<lparr>pos := 0\<rparr>)
                     | Bytes b \<Rightarrow> Bytes b)
      in case upload_fileobj s rewound (bucket_name self) filename ctype ''max-age=31536000'' of
           (Inl e, s') \<Rightarrow> (Inl e, s')
         | (Inr u, s') \<Rightarrow> (Inr (aws_url self filename), s'))"

definition AWSS3Storage_download_file ::
    "AWSS3Storage \<Rightarrow> s3_service \<Rightarrow> string \<Rightarrow> (exn + bytes) \<times> s3_service" where
  "AWSS3Storage_download_file self s filename = get_object s (bucket_name self) filename"

definition AWSS3Storage_delete_file ::
    "AWSS3Storage \<Rightarrow> s3_service \<Rightarrow> string \<Rightarrow> (exn + bool) \<times> s3_service" where
  "AWSS3Storage_delete_file self s filename =
     (case delete_object s (bucket_name self) filename of
        (Inl e, s') \<Rightarrow> (Inl e, s')
      | (Inr u, s') \<Rightarrow> (Inr True, s'))"

definition AWSS3Storage_list_files ::
    "AWSS3Storage \<Rightarrow> s3_service \<Rightarrow> (exn + file_info list) \<times> s3_service" where
  "AWSS3Storage_list_files self s =
     (case list_objects_v2 s (bucket_name self) of
        (Inl e, s') \<Rightarrow> (Inl e, s')
      | (Inr contents, s') \<Rightarrow>
          (Inr (map (\<lambda>(key, obj).
                  \<lparr>name = key,
                   url = aws_url self key,
                   size' = length (Body obj),
                   created = strftime (LastModified obj),
                   content_type = ''image/*''\<rparr>) contents), s'))"

definition AWSS3Storage_file_exists ::
    "AWSS3Storage \<Rightarrow> s3_service \<Rightarrow> string \<Rightarrow> (exn + bool) \<times> s3_service" where
  "AWSS3Storage_file_exists self s filename =
     (case head_object s (bucket_name self) filename of
        (Inr u, s') \<Rightarrow> (Inr True, s')
      | (Inl e, s') \<Rightarrow>
          (case e of
             ClientError code \<Rightarrow> (Inr False, s')
           | _ \<Rightarrow> (Inr False, s')))"

definition AWSS3Storage_get_file_url :: "AWSS3Storage \<Rightarrow> string \<Rightarrow> string" where
  "AWSS3Storage_get_file_url self filename = aws_url self filename"

section \<open>The Azure account behind azure.storage.blob\<close>

text \<open>
  The same shape as for S3. \<open>parses\<close> says which connection strings the SDK accepts
  (it raises \<^verbatim>\<open>ValueError\<close> for the others without any request), \<open>account_url\<close> is the
  endpoint it derives, and \<open>quote\<close> its percent-encoding of a blob name in a URL. The
  service reports a content type for every blob that has content settings.
\<close>

record ContentSettings =
  cs_content_type :: string

record blob =
  blob_content :: bytes
  content_settings :: "ContentSettings option"
  creation_time :: "datetime option"

record blob_container =
  blobs :: "(string \<times> blob) list"
  public_access :: string

record azure_account =
  containers :: "(string \<times> blob_container) list"
  az_faults :: "exn option list"
  az_now :: datetime
  parses :: "string \<Rightarrow> bool"
  account_url :: string
  quote :: "string \<Rightarrow> string"

definition az_call :: "azure_account \<Rightarrow> exn option \<times> azure_account" where
  "az_call a = (case az_faults a of [] \<Rightarrow> (None, a) | f # r \<Rightarrow> (f, a\<lparr>az_faults := r\<rparr>))"

definition from_connection_string :: "azure_account \<Rightarrow> string \<Rightarrow> exn + unit" where
  "from_connection_string a cs =
     (if parses a cs then Inr ()
      else Inl (ValueError ''Connection string is either blank or malformed.''))"

definition container_url :: "azure_account \<Rightarrow> string \<Rightarrow> string" where
  "container_url a c = account_url a @ ''/'' @ quote a c"

definition blob_client_url :: "azure_account \<Rightarrow> string \<Rightarrow> string \<Rightarrow> string" where
  "blob_client_url a c b = account_url a @ ''/'' @ quote a c @ ''/'' @ quote a b"

definition container_create ::
    "azure_account \<Rightarrow> string \<Rightarrow> string \<Rightarrow> (exn + unit) \<times> azure_account" where
  "container_create a c access =
     (case az_call a of
        (Some e, a') \<Rightarrow> (Inl e, a')
      | (None, a') \<Rightarrow>
          (case map_of (containers a') c of
             Some ct \<Rightarrow> (Inl ResourceExistsError, a')
           | None \<Rightarrow>
               (Inr (), a'\<lparr>containers := containers a' @
                  [(c, \<lparr>blobs = [], public_access = access\<rparr>)]\<rparr>)))"

definition upload_blob ::
    "azure_account \<Rightarrow> string \<Rightarrow> string \<Rightarrow> file_stream \<Rightarrow> ContentSettings \<Rightarrow>
     (exn + unit) \<times> azure_account" where
  "upload_blob a c b src settings =
     (case az_call a of
        (Some e, a') \<Rightarrow> (Inl e, a')
      | (None, a') \<Rightarrow>
          (case map_of (containers a') c of
             None \<Rightarrow> (Inl ResourceNotFoundError, a')
           | Some ct \<Rightarrow>
               (Inr (), a'\<lparr>containers := AList.update c
                  (ct\<lparr>blobs := AList.update b
                       \<lparr>blob_content = (case src of Stream st \<Rightarrow> read_all st | Bytes raw \<Rightarrow> raw),
                        content_settings = Some settings,
                        creation_time =
                          (case map_of (blobs ct) b of
                             None \<Rightarrow> Some (az_now a')
                           | Some old \<Rightarrow> creation_time old)\<rparr> (blobs ct)\<rparr>)
                  (containers a')\<rparr>)))"

definition download_blob_readall ::
    "azure_account \<Rightarrow> string \<Rightarrow> string \<Rightarrow> (exn + bytes) \<times> azure_account" where
  "download_blob_readall a c b =
     (case az_call a of
        (Some e, a') \<Rightarrow> (Inl e, a')
      | (None, a') \<Rightarrow>
          (case map_of (containers a') c of
             None \<Rightarrow> (Inl ResourceNotFoundError, a')
           | Some ct \<Rightarrow>
               (case map_of (blobs ct) b of
                  None \<Rightarrow> (Inl ResourceNotFoundError, a')
                | Some bl \<Rightarrow> (Inr (blob_content bl), a'))))"

definition delete_blob :: "azure_account \<Rightarrow> string \<Rightarrow> string \<Rightarrow> (exn + unit) \<times> azure_account" where
  "delete_blob a c b =
     (case az_call a of
        (Some e, a') \<Rightarrow> (Inl e, a')
      | (None, a') \<Rightarrow>
          (case map_of (containers a') c of
             None \<Rightarrow> (Inl ResourceNotFoundError, a')
           | Some ct \<Rightarrow>
               (case map_of (blobs ct) b of
                  None \<Rightarrow> (Inl ResourceNotFoundError, a')
                | Some bl \<Rightarrow>
                    (Inr (), a'\<lparr>containers :=
                       AList.update c (ct\<lparr>blobs := AList.delete b (blobs ct)\<rparr>) (containers a')\<rparr>))))"

definition list_blobs ::
    "azure_account \<Rightarrow> string \<Rightarrow> (exn + (string \<times> blob) list) \<times> azure_account" where
  "list_blobs a c =
     (case az_call a of
        (Some e, a') \<Rightarrow> (Inl e, a')
      | (None, a') \<Rightarrow>
          (case map_of (containers a') c of
             None \<Rightarrow> (Inl ResourceNotFoundError, a')
           | Some ct \<Rightarrow> (Inr (blobs ct), a')))"

text \<open>\<^verbatim>\<open>BlobClient.exists\<close> turns the service's not-found answer into \<^verbatim>\<open>False\<close> itself.\<close>

definition blob_exists :: "azure_account \<Rightarrow> string \<Rightarrow> string \<Rightarrow> (exn + bool) \<times> azure_account" where
  "blob_exists a c b =
     (case az_call a of
        (Some e, a') \<Rightarrow> (Inl e, a')
      | (None, a') \<Rightarrow>
          (case map_of (containers a') c of
             None \<Rightarrow> (Inr False, a')
           | Some ct \<Rightarrow> (Inr (map_of (blobs ct) b \<noteq> None), a')))"

section \<open>storage\_service.py\<close>

record AzureBlobStorage =
  connection_string :: string
  az_container_name :: string

definition AzureBlobStorage_init ::
    "string option \<Rightarrow> string \<Rightarrow> azure_account \<Rightarrow> exn + AzureBlobStorage" where
  "AzureBlobStorage_init conn cn a =
     (case conn of
        None \<Rightarrow> Inl (ValueError ''Azure Storage connection string is required'')
      | Some c \<Rightarrow>
          if c = [] then Inl (ValueError ''Azure Storage connection string is required'')
          else (case from_connection_string a c of
                  Inl e \<Rightarrow> Inl e
                | Inr u \<Rightarrow> Inr \<lparr>connection_string = c, az_container_name = cn\<rparr>))"

definition AzureBlobStorage_create_container ::
    "AzureBlobStorage \<Rightarrow> azure_account \<Rightarrow> (exn + bool) \<times> azure_account" where
  "AzureBlobStorage_create_container self a =
     (case container_create a (az_container_name self) ''blob'' of
        (Inr u, a') \<Rightarrow> (Inr True, a')
      | (Inl e, a') \<Rightarrow>
          (case e of
             ResourceExistsError \<Rightarrow> (Inr True, a')
           | _ \<Rightarrow> (Inl e, a')))"

definition AzureBlobStorage_upload_file ::
    "mimetypes \<Rightarrow> AzureBlobStorage \<Rightarrow> azure_account \<Rightarrow> file_stream \<Rightarrow> string \<Rightarrow>
     (exn + string) \<times> azure_account" where
  "AzureBlobStorage_upload_file guess_type self a file_stream filename =
     (let ctype = content_type_of guess_type filename in
      case upload_blob a (az_container_name self) filename file_stream
             \<lparr>cs_content_type = ctype\<rparr> of
        (Inl e, a') \<Rightarrow> (Inl e, a')
      | (Inr u, a') \<Rightarrow> (Inr (blob_client_url a' (az_container_name self) filename), a'))"

definition AzureBlobStorage_download_file ::
    "AzureBlobStorage \<Rightarrow> azure_account \<Rightarrow> string \<Rightarrow> (exn + bytes) \<times> azure_account" where
  "AzureBlobStorage_download_file self a filename =
     download_blob_readall a (az_container_name self) filename"

definition AzureBlobStorage_delete_file ::
    "AzureBlobStorage \<Rightarrow> azure_account \<Rightarrow> string \<Rightarrow> (exn + bool) \<times> azure_account" where
  "AzureBlobStorage_delete_file self a filename =
     (case delete_blob a (az_container_name self) filename of
        (Inr u, a') \<Rightarrow> (Inr True, a')
      | (Inl e, a') \<Rightarrow>
          (case e of
             ResourceNotFoundError \<Rightarrow> (Inr False, a')
           | _ \<Rightarrow> (Inl e, a')))"

definition AzureBlobStorage_list_files ::
    "AzureBlobStorage \<Rightarrow> azure_account \<Rightarrow> (exn + file_info list) \<times> azure_account" where
  "AzureBlobStorage_list_files self a =
     (case list_blobs a (az_container_name self) of
        (Inl e, a') \<Rightarrow> (Inl e, a')
      | (Inr bs, a') \<Rightarrow>
          (Inr (map (\<lambda>(bname, b).
                  \<lparr>name = bname,
                   url = container_url a' (az_container_name self) @ ''/'' @ bname,
                   size' = length (blob_content b),
                   created = (case creation_time b of
                                Some t \<Rightarrow> strftime t
                              | None \<Rightarrow> ''Unknown''),
                   content_type = (case content_settings b of
                                     Some cs \<Rightarrow> cs_content_type cs
                                   | None \<Rightarrow> ''Unknown'')\<rparr>) bs), a'))"

definition AzureBlobStorage_file_exists ::
    "AzureBlobStorage \<Rightarrow> azure_account \<Rightarrow> string \<Rightarrow> (exn + bool) \<times> azure_account" where
  "AzureBlobStorage_file_exists self a filename =
     (case blob_exists a (az_container_name self) filename of
        (Inr r, a') \<Rightarrow> (Inr r, a')
      | (Inl e, a') \<Rightarrow> (Inr False, a'))"

definition AzureBlobStorage_get_file_url ::
    "AzureBlobStorage \<Rightarrow> azure_account \<Rightarrow> string \<Rightarrow> int \<Rightarrow> string" where
  "AzureBlobStorage_get_file_url self a filename expiry_hours =
     blob_client_url a (az_container_name self) filename"

section \<open>app.py: choosing the backend at start-up\<close>

text \<open>
  What the module-level code of \<^verbatim>\<open>app.py\<close> sees: the environment variables (after
  \<^verbatim>\<open>load_dotenv\<close>), the file system, the two remote services, and which of the three
  storage modules can be imported. The three \<^verbatim>\<open>if\<close> statements run one after the
  other on the globals \<^verbatim>\<open>STORAGE_TYPE\<close>, \<^verbatim>\<open>storage\<close> and \<^verbatim>\<open>storage_type_name\<close>.
\<close>

datatype storage_handle =
    UseAWS AWSS3Storage
  | UseAzure AzureBlobStorage
  | UseLocal LocalFileStorage

record globals =
  STORAGE_TYPE :: string
  storage :: "storage_handle option"
  storage_type_name :: string

record world =
  environ :: "string \<Rightarrow> string option"
  w_fs :: filesystem
  w_s3 :: s3_service
  w_azure :: azure_account
  importable :: "string \<Rightarrow> bool"

definition os_environ_get :: "world \<Rightarrow> string \<Rightarrow> string \<Rightarrow> string" where
  "os_environ_get w k d = (case environ w k of None \<Rightarrow> d | Some v \<Rightarrow> v)"

text \<open>\<^verbatim>\<open>str.lower\<close> on ASCII letters.\<close>

definition lower :: "string \<Rightarrow> string" where
  "lower t =
     map (\<lambda>c. case map_of (zip ''ABCDEFGHIJKLMNOPQRSTUVWXYZ'' ''abcdefghijklmnopqrstuvwxyz'') c of
                 None \<Rightarrow> c
               | Some l \<Rightarrow> l) t"

definition initial_globals :: "world \<Rightarrow> globals" where
  "initial_globals w =
     \<lparr>STORAGE_TYPE = lower (os_environ_get w ''STORAGE_TYPE'' ''local''),
      storage = None,
      storage_type_name = ''Local Storage''\<rparr>"

text \<open>The body of the first \<^verbatim>\<open>try\<close>; \<open>Inl e\<close> when it leaves by an exception.\<close>

definition aws_try :: "globals \<times> world \<Rightarrow> (exn + unit) \<times> globals \<times> world" where
  "aws_try gw =
     (case gw of (g, w) \<Rightarrow>
        if \<not> importable w ''aws_storage_service''
        then (Inl (ImportError ''aws_storage_service''), g, w)
        else
          (case AWSS3Storage_init (environ w ''AWS_ACCESS_KEY_ID'')
                  (environ w ''AWS_SECRET_ACCESS_KEY'')
                  (os_environ_get w ''AWS_REGION'' ''us-east-1'')
                  (os_environ_get w ''AWS_BUCKET_NAME'' ''photos'') (w_s3 w) of
             (Inl e, s1) \<Rightarrow> (Inl e, g, w\<lparr>w_s3 := s1\<rparr>)
           | (Inr st, s1) \<Rightarrow>
               (case AWSS3Storage_create_container st s1 of
                  (Inl e, s2) \<Rightarrow> (Inl e, g\<lparr>storage := Some (UseAWS st)\<rparr>, w\<lparr>w_s3 := s2\<rparr>)
                | (Inr ok, s2) \<Rightarrow>
                    (Inr (), g\<lparr>storage := Some (UseAWS st),
                               storage_type_name := ''AWS S3 Storage''\<rparr>,
                     w\<lparr>w_s3 := s2\<rparr>))))"

definition init_aws :: "globals \<times> world \<Rightarrow> globals \<times> world" where
  "init_aws gw =
     (if STORAGE_TYPE (fst gw) = ''aws'' then
        (case aws_try gw of
           (Inr u, g', w') \<Rightarrow> (g', w')
         | (Inl e, g', w') \<Rightarrow> (g'\<lparr>STORAGE_TYPE := ''local''\<rparr>, w'))
      else gw)"

definition azure_try :: "globals \<times> world \<Rightarrow> (exn + unit) \<times> globals \<times> world" where
  "azure_try gw =
     (case gw of (g, w) \<Rightarrow>
        if \<not> importable w ''storage_service''
        then (Inl (ImportError ''storage_service''), g, w)
        else
          (case AzureBlobStorage_init (environ w ''AZURE_STORAGE_CONNECTION_STRING'')
                  (os_environ_get w ''AZURE_CONTAINER_NAME'' ''photos'') (w_azure w) of
             Inl e \<Rightarrow> (Inl e, g, w)
           | Inr st \<Rightarrow>
               (case AzureBlobStorage_create_container st (w_azure w) of
                  (Inl e, a1) \<Rightarrow> (Inl e, g\<lparr>storage := Some (UseAzure st)\<rparr>, w\<lparr>w_azure := a1\<rparr>)
                | (Inr ok, a1) \<Rightarrow>
                    (Inr (), g\<lparr>storage := Some (UseAzure st),
                               storage_type_name := ''Azure Blob Storage''\<rparr>,
                     w\<lparr>w_azure := a1\<rparr>))))"

definition init_azure :: "globals \<times> world \<Rightarrow> globals \<times> world" where
  "init_azure gw =
     (if STORAGE_TYPE (fst gw) = ''azure'' then
        (case azure_try gw of
           (Inr u, g', w') \<Rightarrow> (g', w')
         | (Inl e, g', w') \<Rightarrow> (g'\<lparr>STORAGE_TYPE := ''local''\<rparr>, w'))
      else gw)"

definition local_try :: "globals \<times> world \<Rightarrow> (exn + unit) \<times> globals \<times> world" where
  "local_try gw =
     (case gw of (g, w) \<Rightarrow>
        if \<not> importable w ''local_storage_service''
        then (Inl (ImportError ''local_storage_service''), g, w)
        else
          (let st = LocalFileStorage_init ''uploads'' ''photos'' in
           case LocalFileStorage_create_container st (w_fs w) of
             (Inl e, f1) \<Rightarrow> (Inl e, g\<lparr>storage := Some (UseLocal st)\<rparr>, w\<lparr>w_fs := f1\<rparr>)
           | (Inr ok, f1) \<Rightarrow>
               (Inr (), g\<lparr>storage := Some (UseLocal st),
                          storage_type_name := ''Local Storage''\<rparr>,
                w\<lparr>w_fs := f1\<rparr>)))"

definition init_local :: "globals \<times> world \<Rightarrow> globals \<times> world" where
  "init_local gw =
     (if STORAGE_TYPE (fst gw) = ''local'' then
        (case local_try gw of
           (Inr u, g', w') \<Rightarrow> (g', w')
         | (Inl e, g', w') \<Rightarrow> (g'\<lparr>storage := None\<rparr>, w'))
      else gw)"

definition boot :: "world \<Rightarrow> globals \<times> world" where
  "boot w = init_local (init_azure (init_aws (initial_globals w, w)))"

record health_response =
  status :: string
  storage_configured :: bool
  storage_type :: string

definition health :: "globals \<Rightarrow> health_response" where
  "health g =
     \<lparr>status = ''healthy'',
      storage_configured = (storage g \<noteq> None),
      storage_type = storage_type_name g\<rparr>"

section \<open>Presence of an object in a remote store\<close>

definition s3_has_object :: "s3_service \<Rightarrow> string \<Rightarrow> string \<Rightarrow> bool" where
  "s3_has_object s b k =
     (case map_of (buckets s) b of None \<Rightarrow> False | Some bk \<Rightarrow> map_of (objects bk) k \<noteq> None)"

definition azure_has_blob :: "azure_account \<Rightarrow> string \<Rightarrow> string \<Rightarrow> bool" where
  "azure_has_blob a c k =
     (case map_of (containers a) c of None \<Rightarrow> False | Some ct \<Rightarrow> map_of (blobs ct) k \<noteq> None)"

section \<open>Inputs for the examples\<close>

text \<open>
  A machine whose working directory \<^verbatim>\<open>/srv\<close> holds nothing yet, the storage object that
  \<^verbatim>\<open>app.py\<close> builds, ten bytes \<open>0xFF\<close>, and a small MIME table by file extension.
\<close>

definition example_fs :: filesystem where
  "example_fs = \<lparr>nodes = [([''srv''], Dir)], cwd = [''srv''], now = 1700000000100000,
                  utc_offset = 0, listdir_key = (\<lambda>f. 0)\<rparr>"

definition example_storage :: LocalFileStorage where
  "example_storage = LocalFileStorage_init ''uploads'' ''photos''"

definition ten_bytes :: bytes where
  "ten_bytes = replicate 10 0xFF"

definition ext_of :: "string \<Rightarrow> string" where
  "ext_of f = rev (takeWhile (\<lambda>c. c \<noteq> CHR ''.'') (rev f))"

definition base_of :: "string \<Rightarrow> string" where
  "base_of f = rev (drop 1 (dropWhile (\<lambda>c. c \<noteq> CHR ''.'') (rev f)))"

definition example_guess_type :: mimetypes where
  "example_guess_type f =
     (if CHR ''.'' \<in> set f \<and> filter (\<lambda>c. c \<noteq> CHR ''.'') (base_of f) \<noteq> []
      then map_of [(''png'', ''image/png''), (''jpg'', ''image/jpeg''), (''jpeg'', ''image/jpeg''),
                   (''gif'', ''image/gif''), (''webp'', ''image/webp''), (''txt'', ''text/plain'')]
             (lower (ext_of f))
      else None)"

definition example_time :: datetime where
  "example_time = \<lparr>year = 2023, month = 11, day = 14, hour = 22, minute = 13, second = 20,
                    microsecond = 0\<rparr>"

text \<open>An S3 endpoint that holds the empty bucket \<^verbatim>\<open>photos\<close> and answers every call.\<close>

definition example_s3 :: s3_service where
  "example_s3 =
     \<lparr>buckets = [(''photos'', \<lparr>objects = [], bucket_policy = None, access_block = None,
                               LocationConstraint = None\<rparr>)],
      s3_faults = [], s3_now = example_time\<rparr>"

definition example_aws :: AWSS3Storage where
  "example_aws = \<lparr>bucket_name = ''photos'', region_name = ''us-east-1''\<rparr>"

text \<open>
  An Azure account whose container \<^verbatim>\<open>photos\<close> holds one blob \<^verbatim>\<open>a.png\<close> that another
  client stored with the content type \<^verbatim>\<open>text/plain\<close>.
\<close>

definition example_azure :: azure_account where
  "example_azure =
     \<lparr>containers =
        [(''photos'',
          \<lparr>blobs = [(''a.png'', \<lparr>blob_content = ten_bytes,
                                  content_settings = Some \<lparr>cs_content_type = ''text/plain''\<rparr>,
                                  creation_time = Some example_time\<rparr>)],
           public_access = ''blob''\<rparr>)],
      az_faults = [], az_now = example_time, parses = (\<lambda>c. c \<noteq> []),
      account_url = ''https://acct.blob.core.windows.net'', quote = (\<lambda>x. x)\<rparr>"

definition example_az :: AzureBlobStorage where
  "example_az = \<lparr>connection_string = ''UseDevelopmentStorage=true'',
                  az_container_name = ''photos''\<rparr>"

text \<open>
  A start-up with \<^verbatim>\<open>STORAGE_TYPE=AWS\<close> and credentials that S3 refuses: the client is
  built, and the first request, \<^verbatim>\<open>head_bucket\<close>, is answered 403. In \<open>blocked_world\<close>
  the working directory moreover holds a regular file named \<^verbatim>\<open>uploads\<close>.
\<close>

definition example_world :: world where
  "example_world =
     \<lparr>environ = map_of [(''STORAGE_TYPE'', ''AWS''), (''AWS_ACCESS_KEY_ID'', ''AKIAEXAMPLE''),
                         (''AWS_SECRET_ACCESS_KEY'', ''wrong'')],
      w_fs = example_fs,
      w_s3 = example_s3\<lparr>s3_faults := [None, Some (ClientError ''403'')]\<rparr>,
      w_azure = example_azure,
      importable = (\<lambda>m. True)\<rparr>"

definition blocked_fs :: filesystem where
  "blocked_fs = example_fs\<lparr>nodes := [([''srv''], Dir), ([''srv'', ''uploads''], File [] 0)]\<rparr>"

definition blocked_world :: world where
  "blocked_world = example_world\<lparr>w_fs := blocked_fs\<rparr>"

text \<open>
  A file system that enumerates \<^verbatim>\<open>third.png\<close> before \<^verbatim>\<open>first.png\<close> before
  \<^verbatim>\<open>second.png\<close>, as a hashed directory may, and its state after the three are uploaded
  in the order of their names within one second: at 0.1 s, 0.4 s and 0.7 s past 22:13:20
  UTC on 14 November 2023.
\<close>

definition hashed_fs :: filesystem where
  "hashed_fs =
     example_fs\<lparr>listdir_key := (\<lambda>f. if f = ''third.png'' then 0
                                     else if f = ''first.png'' then 1 else 2)\<rparr>"

definition three_files_fs :: filesystem where
  "three_files_fs =
     hashed_fs\<lparr>nodes := [([''srv''], Dir), ([''srv'', ''uploads''], Dir),
                           ([''srv'', ''uploads'', ''photos''], Dir),
                           ([''srv'', ''uploads'', ''photos'', ''first.png''],
                            File ten_bytes 1700000000100000),
                           ([''srv'', ''uploads'', ''photos'', ''second.png''],
                            File ten_bytes 1700000000400000),
                           ([''srv'', ''uploads'', ''photos'', ''third.png''],
                            File ten_bytes 1700000000700000)],
                now := 1700000000700000\<rparr>"

section \<open>Facts about the file system\<close>

lemma lookup_update:
  "p \<noteq> [] \<Longrightarrow> lookup (fs\<lparr>nodes := AList.update p v (nodes fs)\<rparr>) q =
     (if q = p then Some v else lookup fs q)"
  by (simp add: lookup_def update_conv')

lemma lookup_delete:
  "p \<noteq> [] \<Longrightarrow> lookup (fs\<lparr>nodes := AList.delete p (nodes fs)\<rparr>) q =
     (if q = p then None else lookup fs q)"
  by (simp add: lookup_def delete_conv')

lemma lookup_snoc:
  "lookup fs p = None \<Longrightarrow> lookup (fs\<lparr>nodes := nodes fs @ [(p, v)]\<rparr>) q =
     (if q = p then Some v else lookup fs q)"
  by (auto simp: lookup_def map_add_def split: option.splits if_splits)

lemma walk_same_dirs:
  "(\<And>q. is_dir fs' q = is_dir fs q) \<Longrightarrow> walk fs cur cs = Inr p \<Longrightarrow> walk fs' cur cs = Inr p"
  by (induction cs arbitrary: cur) (auto split: if_splits)

lemma resolve_same_dirs:
  "(\<And>q. is_dir fs' q = is_dir fs q) \<Longrightarrow> cwd fs' = cwd fs \<Longrightarrow> resolve fs s = Inr p
     \<Longrightarrow> resolve fs' s = Inr p"
  by (auto simp: resolve_def start_dir_def split: if_splits intro: walk_same_dirs)

lemma walk_append:
  "walk fs cur (xs @ ys) = (case walk fs cur xs of Inl e \<Rightarrow> Inl e | Inr q \<Rightarrow> walk fs q ys)"
  by (induction xs arbitrary: cur) auto

lemma mkdirs_mono: "is_dir fs q \<Longrightarrow> is_dir (snd (mkdirs fs cur cs)) q"
proof (induction cs arbitrary: fs cur)
  case Nil
  then show ?case by simp
next
  case (Cons c cs)
  show ?case
  proof (cases "lookup fs (cur @ [c])")
    case None
    have "is_dir (fs\<lparr>nodes := nodes fs @ [(cur @ [c], Dir)]\<rparr>) q"
      using Cons.prems None by (simp add: is_dir_def lookup_snoc)
    then show ?thesis using Cons.IH Cons.prems None by simp
  next
    case (Some n)
    then show ?thesis using Cons.IH Cons.prems by (cases n) simp_all
  qed
qed

lemma mkdirs_cwd: "cwd (snd (mkdirs fs cur cs)) = cwd fs"
  by (induction fs cur cs rule: mkdirs.induct) (auto split: option.splits node.splits)

lemma mkdirs_walk:
  "mkdirs fs cur cs = (Inr (), fs1) \<Longrightarrow> is_dir fs cur \<Longrightarrow>
     \<exists>P. walk fs1 cur cs = Inr P \<and> is_dir fs1 P"
proof (induction cs arbitrary: fs cur)
  case Nil
  then show ?case by simp
next
  case (Cons c cs)
  have cur1: "is_dir fs1 cur"
    using mkdirs_mono [OF Cons.prems(2), of cur "c # cs"] Cons.prems(1) by simp
  show ?case
  proof (cases "c = [] \<or> c = ''.''")
    case True
    then show ?thesis using Cons cur1 by auto
  next
    case False
    note nospecial = this
    show ?thesis
    proof (cases "c = ''..''")
      case True
      with Cons.prems have d: "is_dir fs (butlast cur)" and m: "mkdirs fs (butlast cur) cs = (Inr (), fs1)"
        by (auto split: if_splits)
      have "is_dir fs1 (butlast cur)" using mkdirs_mono [OF d, of "butlast cur" cs] m by simp
      then show ?thesis using Cons.IH [OF m d] cur1 True by auto
    next
      case False
      show ?thesis
      proof (cases "lookup fs (cur @ [c])")
        case None
        let ?fs = "fs\<lparr>nodes := nodes fs @ [(cur @ [c], Dir)]\<rparr>"
        have m: "mkdirs ?fs (cur @ [c]) cs = (Inr (), fs1)"
          using Cons.prems None False nospecial by simp
        have d: "is_dir ?fs (cur @ [c])" using None by (simp add: is_dir_def lookup_snoc)
        show ?thesis using Cons.IH [OF m d] cur1 False nospecial by auto
      next
        case (Some n)
        then show ?thesis
        proof (cases n)
          case (File b t)
          then show ?thesis using Cons.prems Some False nospecial by simp
        next
          case Dir
          have m: "mkdirs fs (cur @ [c]) cs = (Inr (), fs1)"
            using Cons.prems Some Dir False nospecial by simp
          have d: "is_dir fs (cur @ [c])" using Some Dir by (simp add: is_dir_def)
          show ?thesis using Cons.IH [OF m d] cur1 False nospecial by auto
        qed
      qed
    qed
  qed
qed

lemma walk_mkdirs_noop:
  "walk fs cur cs = Inr P \<Longrightarrow> is_dir fs P \<Longrightarrow> mkdirs fs cur cs = (Inr (), fs)"
proof (induction cs arbitrary: cur)
  case Nil
  then show ?case by simp
next
  case (Cons c cs)
  from Cons.prems(1) have cur: "is_dir fs cur" by (auto split: if_splits)
  show ?case
  proof (cases "c = [] \<or> c = ''.'' \<or> c = ''..''")
    case True
    then show ?thesis using Cons cur by (auto split: if_splits)
  next
    case False
    with Cons.prems cur have w: "walk fs (cur @ [c]) cs = Inr P" by simp
    have "is_dir fs (cur @ [c])"
      using w Cons.prems(2) by (cases cs) (auto split: if_splits)
    then show ?thesis using Cons.IH [OF w Cons.prems(2)] False cur by (simp add: is_dir_def)
  qed
qed

lemma split_sep_ne [simp]: "split_sep s \<noteq> []"
  by (induction s) (auto split: list.splits)

lemma split_sep_nosep: "CHR ''/'' \<notin> set b \<Longrightarrow> split_sep b = [b]"
  by (induction b) auto

lemma split_sep_append_sep: "split_sep (a @ CHR ''/'' # b) = split_sep a @ split_sep b"
  by (induction a) (auto split: list.splits)

lemma split_sep_append_nosep:
  "CHR ''/'' \<notin> set b \<Longrightarrow> split_sep (a @ b) = butlast (split_sep a) @ [last (split_sep a) @ b]"
proof (induction a)
  case Nil
  then show ?case by (simp add: split_sep_nosep)
next
  case (Cons c a)
  then show ?case by (cases "split_sep a") (auto split: list.splits)
qed

lemma last_split_sep: "a \<noteq> [] \<Longrightarrow> last a = CHR ''/'' \<Longrightarrow> last (split_sep a) = []"
proof -
  assume "a \<noteq> []" "last a = CHR ''/''"
  then have "a = butlast a @ CHR ''/'' # []" by (metis append_butlast_last_id)
  then have "split_sep a = split_sep (butlast a) @ split_sep []"
    using split_sep_append_sep [of "butlast a" "[]"] by simp
  then show ?thesis by simp
qed

lemma resolve_join:
  assumes n: "valid_name n" and r: "resolve fs a = Inr P" and d: "is_dir fs P"
  shows "resolve fs (os_path_join a n) = Inr (P @ [n])"
proof -
  from r have a: "a \<noteq> []" "CHR 0x00 \<notin> set a"
    and w: "walk fs (start_dir fs a) (split_sep a) = Inr P"
    by (auto simp: resolve_def split: if_splits)
  from n have n': "n \<noteq> []" "hd n \<noteq> CHR ''/''" "CHR ''/'' \<notin> set n" "CHR 0x00 \<notin> set n"
    "n \<noteq> ''.''" "n \<noteq> ''..''"
    by (auto simp: valid_name_def) (metis list.set_sel(1))
  have step: "walk fs P [n] = Inr (P @ [n])" using d n' by simp
  show ?thesis
  proof (cases "last a = CHR ''/''")
    case True
    have j: "os_path_join a n = a @ n" using True a n' by (simp add: os_path_join_def)
    have s1: "split_sep a = butlast (split_sep a) @ [[]]"
      using last_split_sep [OF a(1) True] by (metis append_butlast_last_id split_sep_ne)
    have s2: "split_sep (a @ n) = butlast (split_sep a) @ [n]"
      using split_sep_append_nosep [OF n'(3), of a] last_split_sep [OF a(1) True] by simp
    from w s1 have "walk fs (start_dir fs a) (butlast (split_sep a) @ [[]]) = Inr P" by simp
    then have "walk fs (start_dir fs a) (butlast (split_sep a)) = Inr P"
      by (auto simp: walk_append split: sum.splits if_splits)
    then have "walk fs (start_dir fs a) (split_sep (a @ n)) = Inr (P @ [n])"
      using step by (simp add: s2 walk_append)
    moreover have "start_dir fs (a @ n) = start_dir fs a" using a by (simp add: start_dir_def)
    ultimately show ?thesis using a n' by (simp add: j resolve_def)
  next
    case False
    have j: "os_path_join a n = a @ CHR ''/'' # n" using False a n' by (simp add: os_path_join_def)
    have "split_sep (a @ CHR ''/'' # n) = split_sep a @ [n]"
      by (simp add: split_sep_append_sep split_sep_nosep n')
    then have "walk fs (start_dir fs a) (split_sep (a @ CHR ''/'' # n)) = Inr (P @ [n])"
      using w step by (simp add: walk_append)
    moreover have "start_dir fs (a @ CHR ''/'' # n) = start_dir fs a" using a by (simp add: start_dir_def)
    ultimately show ?thesis using a n' by (simp add: j resolve_def)
  qed
qed

lemma makedirs_resolve:
  assumes "os_makedirs fs s = (Inr (), fs1)"
  shows "\<exists>P. resolve fs1 s = Inr P \<and> is_dir fs1 P"
proof -
  from assms have s: "s \<noteq> []" "CHR 0x00 \<notin> set s"
    and m: "mkdirs fs (start_dir fs s) (split_sep s) = (Inr (), fs1)"
    by (auto simp: os_makedirs_def split: if_splits)
  have "is_dir fs (start_dir fs s)"
    using m by (cases "split_sep s") (auto split: if_splits)
  from mkdirs_walk [OF m this] obtain P where
    "walk fs1 (start_dir fs s) (split_sep s) = Inr P" "is_dir fs1 P" by blast
  moreover have "start_dir fs1 s = start_dir fs s"
    using mkdirs_cwd [of fs "start_dir fs s" "split_sep s"] m by (simp add: start_dir_def)
  ultimately show ?thesis using s by (simp add: resolve_def)
qed

lemma makedirs_noop:
  assumes "resolve fs s = Inr P" "is_dir fs P"
  shows "os_makedirs fs s = (Inr (), fs)"
  using assms by (auto simp: resolve_def os_makedirs_def split: if_splits intro: walk_mkdirs_noop)

lemma open_wb_written:
  assumes "open_wb fs s = (Inr p, fs2)"
  shows "resolve (f_write fs2 p b) s = Inr p"
    and "lookup (f_write fs2 p b) p = Some (File b (now fs))"
    and "\<And>q. q \<noteq> p \<Longrightarrow> lookup (f_write fs2 p b) q = lookup fs q"
    and "cwd (f_write fs2 p b) = cwd fs"
proof -
  from assms have r: "resolve fs s = Inr p" and nd: "\<not> is_dir fs p"
    and fs2: "fs2 = fs\<lparr>nodes := AList.update p (File [] (now fs)) (nodes fs)\<rparr>"
    by (auto simp: open_wb_def split: sum.splits if_splits)
  from nd have p: "p \<noteq> []" by (auto simp: is_dir_def lookup_def)
  have l2: "lookup fs2 p = Some (File [] (now fs))" using p by (simp add: fs2 lookup_update)
  have fw: "f_write fs2 p b = fs2\<lparr>nodes := AList.update p (File b (now fs2)) (nodes fs2)\<rparr>"
    using l2 by (simp add: f_write_def)
  show l3: "lookup (f_write fs2 p b) p = Some (File b (now fs))"
    using p by (simp add: fw lookup_update) (simp add: fs2)
  show o: "\<And>q. q \<noteq> p \<Longrightarrow> lookup (f_write fs2 p b) q = lookup fs q"
    using p by (simp add: fw lookup_update) (simp add: fs2 lookup_update)
  show c: "cwd (f_write fs2 p b) = cwd fs" unfolding fw by (simp add: fs2)
  have "\<And>q. is_dir (f_write fs2 p b) q = is_dir fs q"
    using l3 o nd by (case_tac "q = p") (auto simp: is_dir_def)
  then show "resolve (f_write fs2 p b) s = Inr p" using c r by (rule resolve_same_dirs)
qed

section \<open>The local backend\<close>

lemma upload_fileD:
  assumes "LocalFileStorage_upload_file self fs src n = (Inr u, fs3)"
  shows "\<exists>fs1 p fs2. LocalFileStorage_create_container self fs = (Inr True, fs1) \<and>
           open_wb fs1 (os_path_join (full_path self) n) = (Inr p, fs2) \<and>
           fs3 = f_write fs2 p (case src of Stream st \<Rightarrow> read_all st | Bytes b \<Rightarrow> b) \<and>
           u = local_url self n"
  using assms
  by (auto simp: LocalFileStorage_upload_file_def LocalFileStorage_create_container_def Let_def
        shutil_copyfileobj_def split: prod.splits sum.splits file_stream.splits)

lemma uploaded_file:
  assumes "LocalFileStorage_upload_file self fs src n = (Inr u, fs3)"
  shows "\<exists>p t. resolve fs3 (os_path_join (full_path self) n) = Inr p \<and> p \<noteq> [] \<and>
           lookup fs3 p = Some (File (case src of Stream st \<Rightarrow> read_all st | Bytes b \<Rightarrow> b) t)"
proof -
  from upload_fileD [OF assms] obtain fs1 p fs2 where
    o: "open_wb fs1 (os_path_join (full_path self) n) = (Inr p, fs2)" and
    f: "fs3 = f_write fs2 p (case src of Stream st \<Rightarrow> read_all st | Bytes b \<Rightarrow> b)"
    by blast
  from o have "\<not> is_dir fs1 p" by (auto simp: open_wb_def split: sum.splits if_splits)
  then have "p \<noteq> []" by (auto simp: is_dir_def lookup_def)
  then show ?thesis using open_wb_written(1,2) [OF o] f by blast
qed

lemma create_container_exists:
  assumes "LocalFileStorage_create_container self fs = (Inr r, fs1)"
  shows "r = True \<and> (\<exists>P. resolve fs1 (full_path self) = Inr P \<and> is_dir fs1 P)"
proof -
  from assms have "os_makedirs fs (full_path self) = (Inr (), fs1)" and "r = True"
    by (auto simp: LocalFileStorage_create_container_def split: prod.splits sum.splits)
  then show ?thesis using makedirs_resolve by blast
qed

lemma create_container_noop:
  assumes "os_path_isdir fs (full_path self)"
  shows "LocalFileStorage_create_container self fs = (Inr True, fs)"
proof -
  from assms obtain P where "resolve fs (full_path self) = Inr P" "is_dir fs P"
    by (auto simp: os_path_isdir_def split: sum.splits)
  then show ?thesis by (simp add: LocalFileStorage_create_container_def makedirs_noop)
qed

lemma upload_succeeds:
  assumes v: "valid_name n"
    and c: "LocalFileStorage_create_container self fs = (Inr True, fs1)"
    and nd: "\<not> os_path_isdir fs1 (os_path_join (full_path self) n)"
  shows "\<exists>u fs3. LocalFileStorage_upload_file self fs src n = (Inr u, fs3)"
proof -
  from create_container_exists [OF c] obtain P where
    P: "resolve fs1 (full_path self) = Inr P" "is_dir fs1 P" by blast
  have r: "resolve fs1 (os_path_join (full_path self) n) = Inr (P @ [n])"
    using resolve_join [OF v P] .
  with nd have "\<not> is_dir fs1 (P @ [n])" by (simp add: os_path_isdir_def)
  then have "\<exists>fs2. open_wb fs1 (os_path_join (full_path self) n) = (Inr (P @ [n]), fs2)"
    using r P by (simp add: open_wb_def)
  then show ?thesis using c
    by (auto simp: LocalFileStorage_upload_file_def Let_def split: file_stream.splits)
qed

lemma local_upload_download_roundtrip_aux:
  assumes "LocalFileStorage_upload_file self fs (Bytes b) n = (Inr u, fs')"
  shows "LocalFileStorage_download_file self fs' n = Inr b"
proof -
  from uploaded_file [OF assms] obtain p t where
    "resolve fs' (os_path_join (full_path self) n) = Inr p" "lookup fs' p = Some (File b t)"
    by auto
  then show ?thesis
    by (simp add: LocalFileStorage_download_file_def os_path_exists_def open_rb_read_def)
qed

text \<open>
  Claim C1. On the local backend, \<^verbatim>\<open>upload_file(b, name)\<close> followed by
  \<^verbatim>\<open>download_file(name)\<close> gives back exactly the bytes \<open>b\<close>: whenever the upload
  returns, the download on the resulting file system returns \<open>b\<close>; and the upload does
  return for every name that is one path component, once the container directory can be
  created and the name is not that of a subdirectory.
\<close>
theorem local_upload_download_roundtrip:
  "(\<forall>u fs'. LocalFileStorage_upload_file self fs (Bytes b) n = (Inr u, fs') \<longrightarrow>
       LocalFileStorage_download_file self fs' n = Inr b) \<and>
   (valid_name n \<and> fst (LocalFileStorage_create_container self fs) = Inr True \<and>
    \<not> os_path_isdir (snd (LocalFileStorage_create_container self fs))
         (os_path_join (full_path self) n) \<longrightarrow>
    (\<exists>u fs'. LocalFileStorage_upload_file self fs (Bytes b) n = (Inr u, fs') \<and>
       LocalFileStorage_download_file self fs' n = Inr b))"
proof -
  have a: "LocalFileStorage_download_file self fs' n = Inr b"
    if "LocalFileStorage_upload_file self fs (Bytes b) n = (Inr u, fs')" for u fs'
    using that by (rule local_upload_download_roundtrip_aux)
  have "\<exists>u fs'. LocalFileStorage_upload_file self fs (Bytes b) n = (Inr u, fs')"
    if "valid_name n" "fst (LocalFileStorage_create_container self fs) = Inr True"
      "\<not> os_path_isdir (snd (LocalFileStorage_create_container self fs))
         (os_path_join (full_path self) n)"
    using upload_succeeds [OF that(1) _ that(3)] that(2) by (metis prod.collapse)
  with a show ?thesis by blast
qed


lemma example_create:
  "LocalFileStorage_create_container example_storage example_fs =
     (Inr True, example_fs\<lparr>nodes := [([''srv''], Dir), ([''srv'', ''uploads''], Dir),
                                       ([''srv'', ''uploads'', ''photos''], Dir)]\<rparr>)"
  by (simp add: LocalFileStorage_create_container_def example_storage_def example_fs_def
      LocalFileStorage_init_def os_path_join_def os_makedirs_def start_dir_def is_dir_def lookup_def)

theorem local_upload_download_roundtrip_witness:
  "valid_name ''a.png'' \<and>
   fst (LocalFileStorage_create_container example_storage example_fs) = Inr True \<and>
   \<not> os_path_isdir (snd (LocalFileStorage_create_container example_storage example_fs))
        (os_path_join (full_path example_storage) ''a.png'') \<and>
   (\<exists>u fs'. LocalFileStorage_upload_file example_storage example_fs (Bytes ten_bytes) ''a.png''
              = (Inr u, fs') \<and>
      LocalFileStorage_download_file example_storage fs' ''a.png'' = Inr ten_bytes)"
proof -
  have v: "valid_name ''a.png''" by (simp add: valid_name_def)
  have c: "fst (LocalFileStorage_create_container example_storage example_fs) = Inr True"
    by (simp add: example_create)
  have d: "\<not> os_path_isdir (snd (LocalFileStorage_create_container example_storage example_fs))
        (os_path_join (full_path example_storage) ''a.png'')"
    by (simp add: example_create)
       (simp add: example_storage_def example_fs_def LocalFileStorage_init_def os_path_join_def
          os_path_isdir_def resolve_def start_dir_def is_dir_def lookup_def)
  show ?thesis
    using local_upload_download_roundtrip [of example_storage example_fs ten_bytes "''a.png''"]
      v c d by blast
qed

text \<open>
  Claim C7. On the local backend, a \<^verbatim>\<open>delete_file\<close> after a successful \<^verbatim>\<open>upload_file\<close>
  of the same name returns \<^verbatim>\<open>True\<close> and \<^verbatim>\<open>file_exists\<close> is \<^verbatim>\<open>False\<close> afterwards;
  and \<^verbatim>\<open>delete_file\<close> of a name at which nothing exists returns \<^verbatim>\<open>False\<close>, raises
  nothing and leaves the file system as it was.
\<close>
theorem local_delete_semantics:
  "(\<forall>u fs1. LocalFileStorage_upload_file self fs src n = (Inr u, fs1) \<longrightarrow>
      (\<exists>fs2. LocalFileStorage_delete_file self fs1 n = (Inr True, fs2) \<and>
             \<not> LocalFileStorage_file_exists self fs2 n)) \<and>
   (\<not> LocalFileStorage_file_exists self fs n \<longrightarrow>
      LocalFileStorage_delete_file self fs n = (Inr False, fs))"
proof -
  have a: "\<exists>fs2. LocalFileStorage_delete_file self fs1 n = (Inr True, fs2) \<and>
             \<not> LocalFileStorage_file_exists self fs2 n"
    if up: "LocalFileStorage_upload_file self fs src n = (Inr u, fs1)" for u fs1
  proof -
    let ?fp = "os_path_join (full_path self) n"
    from uploaded_file [OF up] obtain p c t where
      r: "resolve fs1 ?fp = Inr p" and p: "p \<noteq> []" and l: "lookup fs1 p = Some (File c t)"
      by blast
    let ?fs2 = "fs1\<lparr>nodes := AList.delete p (nodes fs1)\<rparr>"
    have del: "LocalFileStorage_delete_file self fs1 n = (Inr True, ?fs2)"
      using r l by (simp add: LocalFileStorage_delete_file_def os_path_exists_def os_remove_def)
    have "\<And>q. is_dir ?fs2 q = is_dir fs1 q"
      using p l by (simp add: is_dir_def lookup_delete)
    moreover have "cwd ?fs2 = cwd fs1" by simp
    ultimately have "resolve ?fs2 ?fp = Inr p" using r by (rule resolve_same_dirs)
    then have "\<not> LocalFileStorage_file_exists self ?fs2 n"
      using p by (simp add: LocalFileStorage_file_exists_def os_path_exists_def lookup_delete)
    with del show ?thesis by blast
  qed
  have "LocalFileStorage_delete_file self fs n = (Inr False, fs)"
    if "\<not> LocalFileStorage_file_exists self fs n"
    using that by (simp add: LocalFileStorage_delete_file_def LocalFileStorage_file_exists_def)
  with a show ?thesis by blast
qed

lemma example_upload:
  "LocalFileStorage_upload_file example_storage example_fs (Bytes ten_bytes) ''a.png'' =
     (Inr ''/uploads/photos/a.png'',
      example_fs\<lparr>nodes := [([''srv''], Dir), ([''srv'', ''uploads''], Dir),
                             ([''srv'', ''uploads'', ''photos''], Dir),
                             ([''srv'', ''uploads'', ''photos'', ''a.png''],
                              File ten_bytes 1700000000100000)]\<rparr>)"
  by (simp add: LocalFileStorage_upload_file_def example_create)
     (simp add: example_storage_def example_fs_def LocalFileStorage_init_def os_path_join_def
        open_wb_def resolve_def start_dir_def is_dir_def lookup_def f_write_def local_url_def)

theorem local_delete_semantics_witness:
  "(\<exists>fs1 fs2. LocalFileStorage_upload_file example_storage example_fs (Bytes ten_bytes) ''a.png''
       = (Inr ''/uploads/photos/a.png'', fs1) \<and>
      LocalFileStorage_delete_file example_storage fs1 ''a.png'' = (Inr True, fs2) \<and>
      \<not> LocalFileStorage_file_exists example_storage fs2 ''a.png'') \<and>
   \<not> LocalFileStorage_file_exists example_storage example_fs ''a.png'' \<and>
   LocalFileStorage_delete_file example_storage example_fs ''a.png'' = (Inr False, example_fs)"
proof -
  have e: "\<not> LocalFileStorage_file_exists example_storage example_fs ''a.png''"
    by (simp add: LocalFileStorage_file_exists_def example_storage_def example_fs_def
        LocalFileStorage_init_def os_path_join_def os_path_exists_def resolve_def start_dir_def
        is_dir_def lookup_def)
  show ?thesis
    using local_delete_semantics [of example_storage example_fs "Bytes ten_bytes" "''a.png''"]
      example_upload e by blast
qed

text \<open>
  Claim C9. The local \<^verbatim>\<open>get_file_url\<close> does not depend on \<^verbatim>\<open>expiry_hours\<close>, and its
  value is the URL that \<^verbatim>\<open>upload_file\<close> returns for the same file name.
\<close>
theorem local_get_file_url_ignores_expiry:
  "LocalFileStorage_get_file_url self n e1 = LocalFileStorage_get_file_url self n e2 \<and>
   (\<forall>u fs'. LocalFileStorage_upload_file self fs src n = (Inr u, fs') \<longrightarrow>
      u = LocalFileStorage_get_file_url self n e1)"
  using upload_fileD by (fastforce simp: LocalFileStorage_get_file_url_def)

theorem local_get_file_url_ignores_expiry_witness:
  "LocalFileStorage_get_file_url example_storage ''a.png'' 24 =
     LocalFileStorage_get_file_url example_storage ''a.png'' 0 \<and>
   fst (LocalFileStorage_upload_file example_storage example_fs (Bytes ten_bytes) ''a.png'') =
     Inr (LocalFileStorage_get_file_url example_storage ''a.png'' 24)"
  using local_get_file_url_ignores_expiry
          [of example_storage "''a.png''" 24 0 example_fs "Bytes ten_bytes"] example_upload
  by simp

text \<open>
  Claim C10. On the local backend, uploading a stream that reads as \<open>b\<close> and uploading
  the bytes \<open>b\<close> are the same operation: same result, same file system afterwards, and
  a download of the name then returns \<open>b\<close>.
\<close>
theorem local_upload_stream_equals_bytes:
  "read_all st = b \<Longrightarrow>
   LocalFileStorage_upload_file self fs (Stream st) n =
     LocalFileStorage_upload_file self fs (Bytes b) n \<and>
   (\<forall>u fs'. LocalFileStorage_upload_file self fs (Stream st) n = (Inr u, fs') \<longrightarrow>
      LocalFileStorage_download_file self fs' n = Inr b)"
proof -
  assume b: "read_all st = b"
  have eq: "LocalFileStorage_upload_file self fs (Stream st) n =
     LocalFileStorage_upload_file self fs (Bytes b) n"
    using b by (auto simp: LocalFileStorage_upload_file_def shutil_copyfileobj_def Let_def split: prod.splits sum.splits)
  moreover have "LocalFileStorage_download_file self fs' n = Inr b"
    if "LocalFileStorage_upload_file self fs (Stream st) n = (Inr u, fs')" for u fs'
    using that local_upload_download_roundtrip_aux eq by metis
  ultimately show ?thesis by blast
qed

theorem local_upload_stream_equals_bytes_witness:
  "read_all \<lparr>data = ten_bytes, pos = 0\<rparr> = ten_bytes \<and>
   LocalFileStorage_upload_file example_storage example_fs
       (Stream \<lparr>data = ten_bytes, pos = 0\<rparr>) ''a.png'' =
     LocalFileStorage_upload_file example_storage example_fs (Bytes ten_bytes) ''a.png'' \<and>
   (\<exists>u fs'. LocalFileStorage_upload_file example_storage example_fs
                (Stream \<lparr>data = ten_bytes, pos = 0\<rparr>) ''a.png'' = (Inr u, fs') \<and>
      LocalFileStorage_download_file example_storage fs' ''a.png'' = Inr ten_bytes)"
proof -
  have r: "read_all \<lparr>data = ten_bytes, pos = 0\<rparr> = ten_bytes" by (simp add: read_all_def)
  show ?thesis
    using local_upload_stream_equals_bytes
            [OF r, of example_storage example_fs "''a.png''"] example_upload r
    by auto
qed

section \<open>The cloud backends\<close>

lemma s3_call_nofault [simp]: "s3_faults s = [] \<Longrightarrow> s3_call s = (None, s)"
  by (simp add: s3_call_def)

lemma az_call_nofault [simp]: "az_faults a = [] \<Longrightarrow> az_call a = (None, a)"
  by (simp add: az_call_def)

lemma aws_create_existing:
  assumes "s3_faults s = []" "map_of (buckets s) (bucket_name self) = Some bk"
  shows "AWSS3Storage_create_container self s = (Inr True, s)"
  using assms by (simp add: AWSS3Storage_create_container_def head_bucket_def)

lemma aws_create_twice:
  assumes f: "s3_faults s = []"
  shows "\<exists>s1. AWSS3Storage_create_container self s = (Inr True, s1) \<and>
           AWSS3Storage_create_container self s1 = (Inr True, s1)"
proof (cases "map_of (buckets s) (bucket_name self)")
  case (Some bk)
  then show ?thesis using aws_create_existing [OF f] by simp
next
  case None
  let ?b = "bucket_name self"
  let ?loc = "if region_name self = ''us-east-1'' then None else Some (region_name self)"
  let ?bk0 = "\<lparr>objects = [], bucket_policy = None, access_block = None, LocationConstraint = ?loc\<rparr>"
  let ?s2 = "s\<lparr>buckets := buckets s @ [(?b, ?bk0)]\<rparr>"
  have c: "create_bucket s ?b ?loc = (Inr (), ?s2)" using f None by (simp add: create_bucket_def)
  have m2: "map_of (buckets ?s2) ?b = Some ?bk0" using None by (simp add: map_add_def)
  let ?bk1 = "?bk0\<lparr>bucket_policy := Some (public_read_policy ?b)\<rparr>"
  let ?s3 = "?s2\<lparr>buckets := AList.update ?b ?bk1 (buckets ?s2)\<rparr>"
  have p: "put_bucket_policy ?s2 ?b (public_read_policy ?b) = (Inr (), ?s3)"
    using f m2 by (simp add: put_bucket_policy_def)
  have m3: "map_of (buckets ?s3) ?b = Some ?bk1" by (simp add: update_conv')
  let ?cfg = "\<lparr>BlockPublicAcls = True, IgnorePublicAcls = True,
                BlockPublicPolicy = False, RestrictPublicBuckets = False\<rparr>"
  let ?s4 = "?s3\<lparr>buckets := AList.update ?b (?bk1\<lparr>access_block := Some ?cfg\<rparr>) (buckets ?s3)\<rparr>"
  have a: "put_public_access_block ?s3 ?b ?cfg = (Inr (), ?s4)"
    using f m3 by (simp add: put_public_access_block_def)
  have h: "head_bucket s ?b = (Inl (ClientError ''404''), s)"
    using f None by (simp add: head_bucket_def)
  have first: "AWSS3Storage_create_container self s = (Inr True, ?s4)"
    unfolding AWSS3Storage_create_container_def h
    using c p a by (cases "region_name self = ''us-east-1''") simp_all
  have "s3_faults ?s4 = []" using f by simp
  moreover have "map_of (buckets ?s4) ?b = Some (?bk1\<lparr>access_block := Some ?cfg\<rparr>)"
    by (simp add: update_conv')
  ultimately have "AWSS3Storage_create_container self ?s4 = (Inr True, ?s4)"
    by (rule aws_create_existing)
  with first show ?thesis by blast
qed

lemma azure_create_existing:
  assumes "az_faults a = []" "map_of (containers a) (az_container_name self) = Some ct"
  shows "AzureBlobStorage_create_container self a = (Inr True, a)"
  using assms by (simp add: AzureBlobStorage_create_container_def container_create_def)

lemma azure_create_twice:
  assumes f: "az_faults a = []"
  shows "\<exists>a1. AzureBlobStorage_create_container self a = (Inr True, a1) \<and>
           AzureBlobStorage_create_container self a1 = (Inr True, a1)"
proof (cases "map_of (containers a) (az_container_name self)")
  case (Some ct)
  then show ?thesis using azure_create_existing [OF f] by simp
next
  case None
  let ?c = "az_container_name self"
  let ?a1 = "a\<lparr>containers := containers a @ [(?c, \<lparr>blobs = [], public_access = ''blob''\<rparr>)]\<rparr>"
  have first: "AzureBlobStorage_create_container self a = (Inr True, ?a1)"
    using f None by (simp add: AzureBlobStorage_create_container_def container_create_def)
  have "az_faults ?a1 = []" using f by simp
  moreover have "map_of (containers ?a1) ?c = Some \<lparr>blobs = [], public_access = ''blob''\<rparr>"
    using None by (simp add: map_add_def)
  ultimately have "AzureBlobStorage_create_container self ?a1 = (Inr True, ?a1)"
    by (rule azure_create_existing)
  with first show ?thesis by blast
qed

lemma local_create_twice:
  assumes "LocalFileStorage_create_container self fs = (Inr r, fs1)"
  shows "r = True \<and> LocalFileStorage_create_container self fs1 = (Inr True, fs1)"
proof -
  from create_container_exists [OF assms] obtain P where
    "r = True" "resolve fs1 (full_path self) = Inr P" "is_dir fs1 P" by blast
  then show ?thesis by (simp add: LocalFileStorage_create_container_def makedirs_noop)
qed

text \<open>
  Claim C4. \<^verbatim>\<open>create_container\<close> is idempotent on every backend. Local: a call that
  returns has returned \<^verbatim>\<open>True\<close>, and a second call on the resulting file system returns
  \<^verbatim>\<open>True\<close> and leaves it as it is. Azure and AWS, when the calls reach the service: the
  first call returns \<^verbatim>\<open>True\<close>, the second one returns \<^verbatim>\<open>True\<close> as well and leaves the
  account, respectively the buckets, unchanged.
\<close>
theorem create_container_idempotent:
  "(\<forall>r fs1. LocalFileStorage_create_container loc fs = (Inr r, fs1) \<longrightarrow>
      r = True \<and> LocalFileStorage_create_container loc fs1 = (Inr True, fs1)) \<and>
   (az_faults a = [] \<longrightarrow>
      (\<exists>a1. AzureBlobStorage_create_container az a = (Inr True, a1) \<and>
            AzureBlobStorage_create_container az a1 = (Inr True, a1))) \<and>
   (s3_faults s = [] \<longrightarrow>
      (\<exists>s1. AWSS3Storage_create_container aws s = (Inr True, s1) \<and>
            AWSS3Storage_create_container aws s1 = (Inr True, s1)))"
  using local_create_twice azure_create_twice aws_create_twice by blast

theorem create_container_idempotent_witness:
  "(\<exists>fs1. LocalFileStorage_create_container example_storage example_fs = (Inr True, fs1) \<and>
      LocalFileStorage_create_container example_storage fs1 = (Inr True, fs1)) \<and>
   az_faults example_azure = [] \<and>
   (\<exists>a1. AzureBlobStorage_create_container example_az example_azure = (Inr True, a1) \<and>
         AzureBlobStorage_create_container example_az a1 = (Inr True, a1)) \<and>
   s3_faults example_s3 = [] \<and>
   (\<exists>s1. AWSS3Storage_create_container example_aws example_s3 = (Inr True, s1) \<and>
         AWSS3Storage_create_container example_aws s1 = (Inr True, s1))"
proof -
  have a: "az_faults example_azure = []" by (simp add: example_azure_def)
  have s: "s3_faults example_s3 = []" by (simp add: example_s3_def)
  show ?thesis
    using create_container_idempotent
            [of example_storage example_fs example_azure example_az example_s3 example_aws]
      example_create a s by blast
qed

text \<open>
  Claim C6. For a name that is not in the container, the AWS \<^verbatim>\<open>delete_file\<close> returns
  \<^verbatim>\<open>True\<close> or raises, and never returns \<^verbatim>\<open>False\<close>; the Azure \<^verbatim>\<open>delete_file\<close>, when
  its request reaches the service, returns \<^verbatim>\<open>False\<close> and changes nothing.
\<close>
theorem cloud_delete_absent:
  "(\<not> s3_has_object s (bucket_name aws) n \<longrightarrow>
      fst (AWSS3Storage_delete_file aws s n) = Inr True \<or>
      (\<exists>e. fst (AWSS3Storage_delete_file aws s n) = Inl e)) \<and>
   (\<not> azure_has_blob a (az_container_name az) n \<and> az_faults a = [] \<longrightarrow>
      AzureBlobStorage_delete_file az a n = (Inr False, a))"
  by (auto simp: AWSS3Storage_delete_file_def AzureBlobStorage_delete_file_def delete_blob_def
        azure_has_blob_def split: prod.splits sum.splits option.splits)

theorem cloud_delete_absent_witness:
  "\<not> s3_has_object example_s3 (bucket_name example_aws) ''zz.png'' \<and>
   AWSS3Storage_delete_file example_aws example_s3 ''zz.png'' = (Inr True, example_s3) \<and>
   \<not> azure_has_blob example_azure (az_container_name example_az) ''zz.png'' \<and>
   az_faults example_azure = [] \<and>
   AzureBlobStorage_delete_file example_az example_azure ''zz.png'' = (Inr False, example_azure)"
proof -
  have 1: "\<not> s3_has_object example_s3 (bucket_name example_aws) ''zz.png''"
    by (simp add: s3_has_object_def example_s3_def example_aws_def)
  have 2: "\<not> azure_has_blob example_azure (az_container_name example_az) ''zz.png''"
    by (simp add: azure_has_blob_def example_azure_def example_az_def)
  have 3: "az_faults example_azure = []" by (simp add: example_azure_def)
  have 4: "AWSS3Storage_delete_file example_aws example_s3 ''zz.png'' = (Inr True, example_s3)"
    by (simp add: AWSS3Storage_delete_file_def delete_object_def s3_call_def example_s3_def
        example_aws_def)
  show ?thesis
    using cloud_delete_absent [of example_s3 example_aws "''zz.png''" example_azure example_az]
      1 2 3 4 by blast
qed

section \<open>Existence probes on the cloud backends\<close>

text \<open>
  Claim C3, as amended. On both cloud backends \<^verbatim>\<open>file_exists\<close> never raises: it returns
  \<^verbatim>\<open>True\<close> or \<^verbatim>\<open>False\<close> when the probe returns, and \<^verbatim>\<open>False\<close> whenever the probe
  raises, whatever the exception; no error of the probe is raised again.
\<close>
theorem cloud_file_exists_swallows_errors:
  "fst (AWSS3Storage_file_exists aws s n) =
     Inr (fst (head_object s (bucket_name aws) n) = Inr ()) \<and>
   fst (AzureBlobStorage_file_exists az a n) =
     Inr (case fst (blob_exists a (az_container_name az) n) of Inl e \<Rightarrow> False | Inr r \<Rightarrow> r)"
  by (auto simp: AWSS3Storage_file_exists_def AzureBlobStorage_file_exists_def
        split: prod.splits sum.splits exn.splits)

text \<open>
  Claim C3 as stated fails: a probe that raises a server error (AWS, status 500; Azure,
  status 503, for a blob that exists) makes \<^verbatim>\<open>file_exists\<close> return \<^verbatim>\<open>False\<close>.
\<close>

theorem cloud_file_exists_reraise_counterexample:
  "fst (head_object (example_s3\<lparr>s3_faults := [Some (ClientError ''500'')]\<rparr>)
          (bucket_name example_aws) ''a.png'') = Inl (ClientError ''500'') \<and>
   fst (AWSS3Storage_file_exists example_aws
          (example_s3\<lparr>s3_faults := [Some (ClientError ''500'')]\<rparr>) ''a.png'') = Inr False \<and>
   fst (blob_exists (example_azure\<lparr>az_faults := [Some (HttpResponseError ''503'')]\<rparr>)
          (az_container_name example_az) ''a.png'') = Inl (HttpResponseError ''503'') \<and>
   fst (AzureBlobStorage_file_exists example_az
          (example_azure\<lparr>az_faults := [Some (HttpResponseError ''503'')]\<rparr>) ''a.png'') = Inr False"
  by (simp add: AWSS3Storage_file_exists_def AzureBlobStorage_file_exists_def head_object_def
        blob_exists_def s3_call_def az_call_def example_s3_def example_azure_def)

section \<open>Listing order on the local backend\<close>

lemmas fs_eval = os_path_join_def os_makedirs_def resolve_def start_dir_def is_dir_def lookup_def
  os_path_exists_def os_path_isdir_def open_wb_def f_write_def os_listdir_def os_stat_def

lemmas time_eval = datetime_fromtimestamp_def civil_from_days_def local_seconds_def civil_year_def
  civil_month_def civil_day_def mp_def doy_def yoe_def doe_def era_def strftime_def pad2_def
  pad4_def digit_def

lemmas local_eval = LocalFileStorage_upload_file_def LocalFileStorage_create_container_def
  LocalFileStorage_init_def local_url_def

lemma sort_key_equal_keys: "\<forall>y\<in>set xs. k y = c \<Longrightarrow> sort_key k xs = xs"
proof (induction xs)
  case Nil
  then show ?case by simp
next
  case (Cons x xs)
  then show ?case by (cases xs) simp_all
qed

lemma sort_reverse_equal_keys: "\<forall>y\<in>set xs. k y = c \<Longrightarrow> sort_reverse k xs = xs"
  using sort_key_equal_keys [of "rev xs" k c] by (simp add: sort_reverse_def)

lemma created_to_the_second:
  "t1 div 1000000 = t2 div 1000000 \<Longrightarrow>
     map_sum id strftime (datetime_fromtimestamp off t1) =
     map_sum id strftime (datetime_fromtimestamp off t2)"
  by (simp add: datetime_fromtimestamp_def local_seconds_def strftime_def split: prod.splits)

lemma strftime_same_second:
  assumes "datetime_fromtimestamp off t1 = Inr d1" "datetime_fromtimestamp off t2 = Inr d2"
    "t1 div 1000000 = t2 div 1000000"
  shows "strftime d1 = strftime d2"
  using created_to_the_second [OF assms(3), of off] assms(1,2) by simp

lemma loop_created:
  assumes "list_files_loop gt self fs ns = Inr infos"
    and "\<forall>n\<in>set ns. \<forall>st. os_stat fs (os_path_join (full_path self) n) = Inr st \<longrightarrow>
           st_ctime st div 1000000 = sec"
  shows "\<forall>i\<in>set infos. \<exists>t d. t div 1000000 = sec \<and>
           datetime_fromtimestamp (utc_offset fs) t = Inr d \<and> created i = strftime d"
  using assms
proof (induction ns arbitrary: infos)
  case Nil
  then show ?case by simp
next
  case (Cons f ns)
  let ?p = "os_path_join (full_path self) f"
  have rest: "\<forall>n\<in>set ns. \<forall>st. os_stat fs (os_path_join (full_path self) n) = Inr st \<longrightarrow>
           st_ctime st div 1000000 = sec"
    using Cons.prems(2) by simp
  show ?case
  proof (cases "os_path_isdir fs ?p")
    case True
    then have "list_files_loop gt self fs ns = Inr infos" using Cons.prems(1) by simp
    then show ?thesis using Cons.IH rest by blast
  next
    case False
    with Cons.prems(1) obtain st dt tl_infos where
      st: "os_stat fs ?p = Inr st" and
      dt: "datetime_fromtimestamp (utc_offset fs) (st_ctime st) = Inr dt" and
      tl: "list_files_loop gt self fs ns = Inr tl_infos" and
      infos: "infos = \<lparr>name = f, url = local_url self f, size' = st_size st,
                       created = strftime dt, content_type = content_type_of gt f\<rparr> # tl_infos"
      by (auto simp: Let_def split: sum.splits)
    have sec: "st_ctime st div 1000000 = sec" using Cons.prems(2) st by simp
    have "\<forall>i\<in>set tl_infos. \<exists>t d. t div 1000000 = sec \<and>
           datetime_fromtimestamp (utc_offset fs) t = Inr d \<and> created i = strftime d"
      using Cons.IH [OF tl rest] .
    then show ?thesis using sec dt by (auto simp: infos)
  qed
qed

lemma loop_names:
  "list_files_loop gt self fs ns = Inr infos \<Longrightarrow>
     map name infos = filter (\<lambda>n. \<not> os_path_isdir fs (os_path_join (full_path self) n)) ns"
proof (induction ns arbitrary: infos)
  case Nil
  then show ?case by simp
next
  case (Cons f ns)
  then show ?case
    by (auto simp: Let_def split: if_splits sum.splits)
qed

text \<open>
  Claim C5 fails whenever the files were created within one second. Then all sort keys,
  the time stamps formatted to the second, are equal, the stable sort changes nothing, and
  \<^verbatim>\<open>list_files\<close> returns the files in the order in which \<^verbatim>\<open>os.listdir\<close> enumerates
  them, whatever that order is, and not newest first.
\<close>

theorem local_list_same_second:
  assumes "os_path_exists fs (full_path self)"
    and "os_listdir fs (full_path self) = Inr ns"
    and "list_files_loop gt self fs ns = Inr infos"
    and "\<forall>n\<in>set ns. \<forall>st. os_stat fs (os_path_join (full_path self) n) = Inr st \<longrightarrow>
           st_ctime st div 1000000 = sec"
  shows "LocalFileStorage_list_files gt self fs = Inr infos \<and>
         map name infos =
           filter (\<lambda>n. \<not> os_path_isdir fs (os_path_join (full_path self) n)) ns"
proof -
  from loop_created [OF assms(3,4)] have
    c: "\<forall>i\<in>set infos. \<exists>t d. t div 1000000 = sec \<and>
           datetime_fromtimestamp (utc_offset fs) t = Inr d \<and> created i = strftime d" .
  have "\<forall>i\<in>set infos. created i = created (hd infos)"
  proof
    fix i assume i: "i \<in> set infos"
    then have "hd infos \<in> set infos" by (cases infos) auto
    with c i obtain t d t' d' where
      "t div 1000000 = sec" "datetime_fromtimestamp (utc_offset fs) t = Inr d"
      "created i = strftime d"
      "t' div 1000000 = sec" "datetime_fromtimestamp (utc_offset fs) t' = Inr d'"
      "created (hd infos) = strftime d'"
      by blast
    then show "created i = created (hd infos)"
      using strftime_same_second [of "utc_offset fs" t d t' d'] by simp
  qed
  then have "sort_reverse created infos = infos" by (rule sort_reverse_equal_keys)
  then show ?thesis
    using assms(1,2,3) loop_names [OF assms(3)]
    by (simp add: LocalFileStorage_list_files_def)
qed

lemma three_uploads:
  "snd (LocalFileStorage_upload_file example_storage
     (snd (LocalFileStorage_upload_file example_storage
        (snd (LocalFileStorage_upload_file example_storage hashed_fs
                (Bytes ten_bytes) ''first.png'')
         \<lparr>now := 1700000000400000\<rparr>)
        (Bytes ten_bytes) ''second.png'')
      \<lparr>now := 1700000000700000\<rparr>)
     (Bytes ten_bytes) ''third.png'') = three_files_fs"
  by (simp add: local_eval fs_eval example_storage_def example_fs_def hashed_fs_def
        three_files_fs_def)

lemma created_same_second:
  "datetime_fromtimestamp 0 1700000000100000 = Inr (example_time\<lparr>microsecond := 100000\<rparr>)"
  "datetime_fromtimestamp 0 1700000000400000 = Inr (example_time\<lparr>microsecond := 400000\<rparr>)"
  "datetime_fromtimestamp 0 1700000000700000 = Inr (example_time\<lparr>microsecond := 700000\<rparr>)"
  "strftime (example_time\<lparr>microsecond := m\<rparr>) = ''2023-11-14 22:13:20''"
  by (simp_all add: time_eval example_time_def)

lemma png_type:
  "content_type_of example_guess_type ''first.png'' = ''image/png''"
  "content_type_of example_guess_type ''second.png'' = ''image/png''"
  "content_type_of example_guess_type ''third.png'' = ''image/png''"
  "content_type_of example_guess_type ''a.png'' = ''image/png''"
  by (simp_all add: content_type_of_def example_guess_type_def ext_of_def base_of_def lower_def)

lemma three_files_listdir:
  "os_path_exists three_files_fs (full_path example_storage)"
  "os_listdir three_files_fs (full_path example_storage) =
     Inr [''third.png'', ''first.png'', ''second.png'']"
  by (simp_all add: fs_eval example_storage_def example_fs_def hashed_fs_def three_files_fs_def
        LocalFileStorage_init_def)

lemma three_files_loop:
  "list_files_loop example_guess_type example_storage three_files_fs
     [''third.png'', ''first.png'', ''second.png''] =
   Inr [\<lparr>name = ''third.png'', url = ''/uploads/photos/third.png'', size' = 10,
         created = ''2023-11-14 22:13:20'', content_type = ''image/png''\<rparr>,
        \<lparr>name = ''first.png'', url = ''/uploads/photos/first.png'', size' = 10,
         created = ''2023-11-14 22:13:20'', content_type = ''image/png''\<rparr>,
        \<lparr>name = ''second.png'', url = ''/uploads/photos/second.png'', size' = 10,
         created = ''2023-11-14 22:13:20'', content_type = ''image/png''\<rparr>]"
  by (simp add: fs_eval example_storage_def example_fs_def hashed_fs_def three_files_fs_def
        LocalFileStorage_init_def local_url_def created_same_second png_type ten_bytes_def)

lemma three_files_same_second:
  "\<forall>n\<in>set [''third.png'', ''first.png'', ''second.png''].
     \<forall>st. os_stat three_files_fs (os_path_join (full_path example_storage) n) = Inr st \<longrightarrow>
       st_ctime st div 1000000 = 1700000000"
  by (auto simp: fs_eval example_storage_def example_fs_def hashed_fs_def three_files_fs_def
        LocalFileStorage_init_def)

lemma three_files_listing_ex:
  "\<exists>l. LocalFileStorage_list_files example_guess_type example_storage three_files_fs = Inr l \<and>
       l \<noteq> []"
  by (simp add: LocalFileStorage_list_files_def three_files_listdir three_files_loop
        sort_reverse_def del: list_files_loop.simps)

text \<open>
  The three uploads at 0.1 s, 0.4 s and 0.7 s of one second lead to \<open>three_files_fs\<close>,
  whose directory is enumerated \<^verbatim>\<open>third.png\<close>, \<^verbatim>\<open>first.png\<close>, \<^verbatim>\<open>second.png\<close>, and that
  is the order of the listing: the oldest file stands before the second oldest.
\<close>

theorem local_list_same_second_witness:
  "snd (LocalFileStorage_upload_file example_storage
     (snd (LocalFileStorage_upload_file example_storage
        (snd (LocalFileStorage_upload_file example_storage hashed_fs
                (Bytes ten_bytes) ''first.png'')
         \<lparr>now := 1700000000400000\<rparr>)
        (Bytes ten_bytes) ''second.png'')
      \<lparr>now := 1700000000700000\<rparr>)
     (Bytes ten_bytes) ''third.png'') = three_files_fs \<and>
   os_listdir three_files_fs (full_path example_storage) =
     Inr [''third.png'', ''first.png'', ''second.png''] \<and>
   LocalFileStorage_list_files example_guess_type example_storage three_files_fs =
   Inr [\<lparr>name = ''third.png'', url = ''/uploads/photos/third.png'', size' = 10,
         created = ''2023-11-14 22:13:20'', content_type = ''image/png''\<rparr>,
        \<lparr>name = ''first.png'', url = ''/uploads/photos/first.png'', size' = 10,
         created = ''2023-11-14 22:13:20'', content_type = ''image/png''\<rparr>,
        \<lparr>name = ''second.png'', url = ''/uploads/photos/second.png'', size' = 10,
         created = ''2023-11-14 22:13:20'', content_type = ''image/png''\<rparr>]"
  using local_list_same_second
          [OF three_files_listdir three_files_loop three_files_same_second]
    three_uploads three_files_listdir(2)
  by simp

section \<open>Content types\<close>

lemma loop_content_type:
  "list_files_loop gt loc fs ns = Inr l \<Longrightarrow>
     \<forall>i\<in>set l. content_type i = content_type_of gt (name i)"
proof (induction ns arbitrary: l)
  case Nil
  then show ?case by simp
next
  case (Cons f ns)
  then show ?case
    by (auto simp: Let_def split: if_splits sum.splits)
qed

lemma local_list_content_type:
  assumes "LocalFileStorage_list_files gt loc fs = Inr l"
  shows "\<forall>i\<in>set l. content_type i = content_type_of gt (name i)"
  using assms loop_content_type
  by (fastforce simp: LocalFileStorage_list_files_def sort_reverse_def
        split: if_splits sum.splits)

lemma aws_upload_content_type:
  assumes "AWSS3Storage_upload_file gt aws s src n = (Inr u, s')"
  shows "\<exists>bk ob. map_of (buckets s') (bucket_name aws) = Some bk \<and>
           map_of (objects bk) n = Some ob \<and> ContentType ob = content_type_of gt n"
  using assms
  by (auto simp: AWSS3Storage_upload_file_def upload_fileobj_def Let_def update_conv'
        split: prod.splits sum.splits file_stream.splits option.splits)

lemma azure_upload_content_type:
  assumes "AzureBlobStorage_upload_file gt az a src n = (Inr u, a')"
  shows "\<exists>ct b. map_of (containers a') (az_container_name az) = Some ct \<and>
           map_of (blobs ct) n = Some b \<and>
           content_settings b = Some \<lparr>cs_content_type = content_type_of gt n\<rparr>"
  using assms
  by (auto simp: AzureBlobStorage_upload_file_def upload_blob_def Let_def update_conv'
        split: prod.splits sum.splits option.splits)

lemma azure_list_content_type:
  assumes "fst (AzureBlobStorage_list_files az a) = Inr l"
  shows "\<exists>ct. map_of (containers a) (az_container_name az) = Some ct \<and>
           map (\<lambda>i. (name i, content_type i)) l =
           map (\<lambda>(k, b). (k, case content_settings b of
                                 Some cs \<Rightarrow> cs_content_type cs
                               | None \<Rightarrow> ''Unknown'')) (blobs ct)"
  using assms
  by (auto simp: AzureBlobStorage_list_files_def list_blobs_def az_call_def
        split: prod.splits sum.splits option.splits list.splits)

text \<open>
  Claim C8, as amended. \<^verbatim>\<open>upload_file\<close> attaches the MIME type inferred from the file
  name (\<^verbatim>\<open>application/octet-stream\<close> when the table has none) to the object on the AWS
  and on the Azure backend. The local listing reports that inferred type for every entry.
  The Azure listing reports the content type stored with each blob, or \<^verbatim>\<open>Unknown\<close> for
  a blob without content settings. Nothing is said of the content type in the AWS
  listing.
\<close>
theorem content_type_inference:
  "(\<forall>u s'. AWSS3Storage_upload_file gt aws s src n = (Inr u, s') \<longrightarrow>
      (\<exists>bk ob. map_of (buckets s') (bucket_name aws) = Some bk \<and>
         map_of (objects bk) n = Some ob \<and> ContentType ob = content_type_of gt n)) \<and>
   (\<forall>u a'. AzureBlobStorage_upload_file gt az a src n = (Inr u, a') \<longrightarrow>
      (\<exists>ct b. map_of (containers a') (az_container_name az) = Some ct \<and>
         map_of (blobs ct) n = Some b \<and>
         content_settings b = Some \<lparr>cs_content_type = content_type_of gt n\<rparr>)) \<and>
   (\<forall>l. LocalFileStorage_list_files gt loc fs = Inr l \<longrightarrow>
      (\<forall>i\<in>set l. content_type i = content_type_of gt (name i))) \<and>
   (\<forall>l. fst (AzureBlobStorage_list_files az a) = Inr l \<longrightarrow>
      (\<exists>ct. map_of (containers a) (az_container_name az) = Some ct \<and>
         map (\<lambda>i. (name i, content_type i)) l =
         map (\<lambda>(k, b). (k, case content_settings b of
                               Some cs \<Rightarrow> cs_content_type cs
                             | None \<Rightarrow> ''Unknown'')) (blobs ct)))"
proof (intro conjI allI impI)
  fix u s' assume "AWSS3Storage_upload_file gt aws s src n = (Inr u, s')"
  then show "\<exists>bk ob. map_of (buckets s') (bucket_name aws) = Some bk \<and>
         map_of (objects bk) n = Some ob \<and> ContentType ob = content_type_of gt n"
    by (rule aws_upload_content_type)
next
  fix u a' assume "AzureBlobStorage_upload_file gt az a src n = (Inr u, a')"
  then show "\<exists>ct b. map_of (containers a') (az_container_name az) = Some ct \<and>
         map_of (blobs ct) n = Some b \<and>
         content_settings b = Some \<lparr>cs_content_type = content_type_of gt n\<rparr>"
    by (rule azure_upload_content_type)
next
  fix l assume "LocalFileStorage_list_files gt loc fs = Inr l"
  then show "\<forall>i\<in>set l. content_type i = content_type_of gt (name i)"
    by (rule local_list_content_type)
next
  fix l assume "fst (AzureBlobStorage_list_files az a) = Inr l"
  then show "\<exists>ct. map_of (containers a) (az_container_name az) = Some ct \<and>
         map (\<lambda>i. (name i, content_type i)) l =
         map (\<lambda>(k, b). (k, case content_settings b of
                               Some cs \<Rightarrow> cs_content_type cs
                             | None \<Rightarrow> ''Unknown'')) (blobs ct)"
    by (rule azure_list_content_type)
qed

lemma example_aws_upload:
  "AWSS3Storage_upload_file example_guess_type example_aws example_s3
      (Stream \<lparr>data = ten_bytes, pos = 0\<rparr>) ''a.png'' =
   (Inr ''https://photos.s3.us-east-1.amazonaws.com/a.png'',
    example_s3\<lparr>buckets :=
      [(''photos'',
        \<lparr>objects = [(''a.png'', \<lparr>Body = ten_bytes, ContentType = ''image/png'',
                                  CacheControl = ''max-age=31536000'',
                                  LastModified = example_time\<rparr>)],
         bucket_policy = None, access_block = None, LocationConstraint = None\<rparr>)]\<rparr>)"
  by (simp add: AWSS3Storage_upload_file_def upload_fileobj_def s3_call_def example_s3_def
        example_aws_def png_type read_all_def aws_url_def)

lemma example_time_string: "strftime example_time = ''2023-11-14 22:13:20''"
  by (simp add: strftime_def example_time_def pad2_def pad4_def digit_def)

lemma example_azure_listing:
  "fst (AzureBlobStorage_list_files example_az example_azure) =
     Inr [\<lparr>name = ''a.png'', url = ''https://acct.blob.core.windows.net/photos/a.png'',
           size' = 10, created = ''2023-11-14 22:13:20'', content_type = ''text/plain''\<rparr>]"
  by (simp add: AzureBlobStorage_list_files_def list_blobs_def az_call_def example_azure_def
        example_az_def container_url_def ten_bytes_def example_time_string)

lemma example_azure_upload:
  "fst (AzureBlobStorage_upload_file example_guess_type example_az example_azure
          (Stream \<lparr>data = ten_bytes, pos = 0\<rparr>) ''a.png'') =
     Inr ''https://acct.blob.core.windows.net/photos/a.png''"
  by (simp add: AzureBlobStorage_upload_file_def upload_blob_def az_call_def example_azure_def
        example_az_def blob_client_url_def)

text \<open>
  Claim C8 as stated fails for two listings: Azure lists a blob \<^verbatim>\<open>a.png\<close> that another
  client stored as \<^verbatim>\<open>text/plain\<close> with that type, and AWS lists the \<^verbatim>\<open>a.png\<close> that
  \<^verbatim>\<open>upload_file\<close> has just stored as \<^verbatim>\<open>image/png\<close> with the type \<^verbatim>\<open>image/*\<close>.
\<close>

theorem content_type_listing_counterexample:
  "content_type_of example_guess_type ''a.png'' = ''image/png'' \<and>
   fst (AzureBlobStorage_list_files example_az example_azure) =
     Inr [\<lparr>name = ''a.png'', url = ''https://acct.blob.core.windows.net/photos/a.png'',
           size' = 10, created = ''2023-11-14 22:13:20'', content_type = ''text/plain''\<rparr>] \<and>
   fst (AWSS3Storage_list_files example_aws
          (snd (AWSS3Storage_upload_file example_guess_type example_aws example_s3
                  (Stream \<lparr>data = ten_bytes, pos = 0\<rparr>) ''a.png''))) =
     Inr [\<lparr>name = ''a.png'', url = ''https://photos.s3.us-east-1.amazonaws.com/a.png'',
           size' = 10, created = ''2023-11-14 22:13:20'', content_type = ''image/*''\<rparr>]"
  by (simp add: example_aws_upload example_time_string)
     (simp add: png_type AzureBlobStorage_list_files_def
        list_blobs_def az_call_def example_azure_def example_az_def container_url_def
        AWSS3Storage_list_files_def list_objects_v2_def s3_call_def example_s3_def
        example_aws_def aws_url_def ten_bytes_def example_time_string)

theorem content_type_inference_witness:
  "(\<exists>bk ob. map_of (buckets (snd (AWSS3Storage_upload_file example_guess_type example_aws
                 example_s3 (Stream \<lparr>data = ten_bytes, pos = 0\<rparr>) ''a.png'')))
               (bucket_name example_aws) = Some bk \<and>
      map_of (objects bk) ''a.png'' = Some ob \<and> ContentType ob = ''image/png'') \<and>
   (\<exists>ct b. map_of (containers (snd (AzureBlobStorage_upload_file example_guess_type example_az
                 example_azure (Stream \<lparr>data = ten_bytes, pos = 0\<rparr>) ''a.png'')))
               (az_container_name example_az) = Some ct \<and>
      map_of (blobs ct) ''a.png'' = Some b \<and>
      content_settings b = Some \<lparr>cs_content_type = ''image/png''\<rparr>) \<and>
   (\<exists>l. LocalFileStorage_list_files example_guess_type example_storage three_files_fs = Inr l \<and>
      l \<noteq> [] \<and>
      map content_type l = map (\<lambda>i. content_type_of example_guess_type (name i)) l) \<and>
   (\<exists>l ct. fst (AzureBlobStorage_list_files example_az example_azure) = Inr l \<and>
      map_of (containers example_azure) (az_container_name example_az) = Some ct \<and>
      map (\<lambda>i. (name i, content_type i)) l =
      map (\<lambda>(k, b). (k, case content_settings b of
                            Some cs \<Rightarrow> cs_content_type cs
                          | None \<Rightarrow> ''Unknown'')) (blobs ct))"
proof -
  let ?src = "Stream \<lparr>data = ten_bytes, pos = 0\<rparr>"
  note t = content_type_inference
             [of example_guess_type example_aws example_s3 ?src "''a.png''" example_az
                 example_azure example_storage three_files_fs]
  have ct: "content_type_of example_guess_type ''a.png'' = ''image/png''"
    by (rule png_type)
  have "AWSS3Storage_upload_file example_guess_type example_aws example_s3 ?src ''a.png'' =
      (Inr ''https://photos.s3.us-east-1.amazonaws.com/a.png'',
       snd (AWSS3Storage_upload_file example_guess_type example_aws example_s3 ?src ''a.png''))"
    by (simp add: example_aws_upload)
  with t have 1: "\<exists>bk ob. map_of (buckets (snd (AWSS3Storage_upload_file example_guess_type
                 example_aws example_s3 ?src ''a.png''))) (bucket_name example_aws) = Some bk \<and>
      map_of (objects bk) ''a.png'' = Some ob \<and> ContentType ob = ''image/png''"
    unfolding ct by blast
  have "AzureBlobStorage_upload_file example_guess_type example_az example_azure ?src ''a.png'' =
      (Inr ''https://acct.blob.core.windows.net/photos/a.png'',
       snd (AzureBlobStorage_upload_file example_guess_type example_az example_azure ?src
              ''a.png''))"
    using example_azure_upload by (simp add: prod_eq_iff)
  with t have 2: "\<exists>ct b. map_of (containers (snd (AzureBlobStorage_upload_file
                 example_guess_type example_az example_azure ?src ''a.png'')))
               (az_container_name example_az) = Some ct \<and>
      map_of (blobs ct) ''a.png'' = Some b \<and>
      content_settings b = Some \<lparr>cs_content_type = ''image/png''\<rparr>"
    unfolding ct by blast
  from three_files_listing_ex obtain l where
    l: "LocalFileStorage_list_files example_guess_type example_storage three_files_fs = Inr l"
      "l \<noteq> []" by blast
  with t have "\<forall>i\<in>set l. content_type i = content_type_of example_guess_type (name i)"
    by blast
  then have "map content_type l = map (\<lambda>i. content_type_of example_guess_type (name i)) l"
    by simp
  with l have 3: "\<exists>l. LocalFileStorage_list_files example_guess_type example_storage
        three_files_fs = Inr l \<and> l \<noteq> [] \<and>
      map content_type l = map (\<lambda>i. content_type_of example_guess_type (name i)) l"
    by blast
  from t example_azure_listing have 4: "\<exists>l ct.
      fst (AzureBlobStorage_list_files example_az example_azure) = Inr l \<and>
      map_of (containers example_azure) (az_container_name example_az) = Some ct \<and>
      map (\<lambda>i. (name i, content_type i)) l =
      map (\<lambda>(k, b). (k, case content_settings b of
                            Some cs \<Rightarrow> cs_content_type cs
                          | None \<Rightarrow> ''Unknown'')) (blobs ct)"
    by blast
  from 1 2 3 4 show ?thesis by blast
qed

section \<open>Start-up\<close>

lemma aws_try_fail:
  assumes "fst (aws_try (g, w)) = Inl e"
  shows "storage_type_name (fst (snd (aws_try (g, w)))) = storage_type_name g"
    and "w_fs (snd (snd (aws_try (g, w)))) = w_fs w"
    and "importable (snd (snd (aws_try (g, w)))) = importable w"
  using assms
  by (auto simp: aws_try_def split: if_splits prod.splits sum.splits)

lemma azure_try_fail:
  assumes "fst (azure_try (g, w)) = Inl e"
  shows "storage_type_name (fst (snd (azure_try (g, w)))) = storage_type_name g"
    and "w_fs (snd (snd (azure_try (g, w)))) = w_fs w"
    and "importable (snd (snd (azure_try (g, w)))) = importable w"
  using assms
  by (auto simp: azure_try_def split: if_splits prod.splits sum.splits)

lemma local_create_True:
  "fst (LocalFileStorage_create_container st fs) = Inr ok \<Longrightarrow> ok = True"
  by (auto simp: LocalFileStorage_create_container_def split: prod.splits sum.splits)

lemma init_local_outcome:
  assumes "STORAGE_TYPE g = ''local''" "storage_type_name g = ''Local Storage''"
  shows "STORAGE_TYPE (fst (init_local (g, w))) = ''local''"
    and "storage_type_name (fst (init_local (g, w))) = ''Local Storage''"
    and "storage (fst (init_local (g, w))) =
           (if importable w ''local_storage_service'' \<and>
               fst (LocalFileStorage_create_container
                      (LocalFileStorage_init ''uploads'' ''photos'') (w_fs w)) = Inr True
            then Some (UseLocal (LocalFileStorage_init ''uploads'' ''photos''))
            else None)"
  using assms local_create_True [of "LocalFileStorage_init ''uploads'' ''photos''" "w_fs w"]
  by (auto simp: init_local_def local_try_def Let_def split: prod.splits sum.splits)

lemma fallback_state:
  assumes "STORAGE_TYPE (initial_globals w) = ''aws'' \<and>
             fst (aws_try (initial_globals w, w)) = Inl e \<or>
           STORAGE_TYPE (initial_globals w) = ''azure'' \<and>
             fst (azure_try (initial_globals w, w)) = Inl e"
  shows "\<exists>g1 w1. init_azure (init_aws (initial_globals w, w)) = (g1, w1) \<and>
           STORAGE_TYPE g1 = ''local'' \<and> storage_type_name g1 = ''Local Storage'' \<and>
           w_fs w1 = w_fs w \<and> importable w1 = importable w"
proof -
  have n0: "storage_type_name (initial_globals w) = ''Local Storage''"
    by (simp add: initial_globals_def)
  from assms show ?thesis
  proof
    assume a: "STORAGE_TYPE (initial_globals w) = ''aws'' \<and>
             fst (aws_try (initial_globals w, w)) = Inl e"
    then obtain g' w' where t: "aws_try (initial_globals w, w) = (Inl e, g', w')"
      by (metis prod.collapse)
    have "init_aws (initial_globals w, w) = (g'\<lparr>STORAGE_TYPE := ''local''\<rparr>, w')"
      using a t by (simp add: init_aws_def)
    moreover have "init_azure (g'\<lparr>STORAGE_TYPE := ''local''\<rparr>, w') =
        (g'\<lparr>STORAGE_TYPE := ''local''\<rparr>, w')"
      by (simp add: init_azure_def)
    moreover have "storage_type_name g' = ''Local Storage''" "w_fs w' = w_fs w"
        "importable w' = importable w"
      using aws_try_fail [of "initial_globals w" w e] a t n0 by simp_all
    ultimately show ?thesis by simp
  next
    assume a: "STORAGE_TYPE (initial_globals w) = ''azure'' \<and>
             fst (azure_try (initial_globals w, w)) = Inl e"
    then obtain g' w' where t: "azure_try (initial_globals w, w) = (Inl e, g', w')"
      by (metis prod.collapse)
    have "init_aws (initial_globals w, w) = (initial_globals w, w)"
      using a by (simp add: init_aws_def)
    moreover have "init_azure (initial_globals w, w) = (g'\<lparr>STORAGE_TYPE := ''local''\<rparr>, w')"
      using a t by (simp add: init_azure_def)
    moreover have "storage_type_name g' = ''Local Storage''" "w_fs w' = w_fs w"
        "importable w' = importable w"
      using azure_try_fail [of "initial_globals w" w e] a t n0 by simp_all
    ultimately show ?thesis by simp
  qed
qed

text \<open>
  Claim C2, as amended. When the configured backend is \<^verbatim>\<open>aws\<close> or \<^verbatim>\<open>azure\<close> and its
  \<^verbatim>\<open>try\<close> block leaves by an exception (import, construction or \<^verbatim>\<open>create_container\<close>),
  start-up goes on to the local backend: \<^verbatim>\<open>STORAGE_TYPE\<close> is \<^verbatim>\<open>local\<close> and the health
  endpoint reports the type \<^verbatim>\<open>Local Storage\<close>. The storage handle is the local one exactly
  when the local module imports and its \<^verbatim>\<open>create_container\<close> returns; otherwise the handle
  is \<^verbatim>\<open>None\<close> and the health endpoint reports \<^verbatim>\<open>storage_configured\<close> false.
\<close>
theorem boot_fallback_to_local:
  assumes "STORAGE_TYPE (initial_globals w) = ''aws'' \<and>
             fst (aws_try (initial_globals w, w)) = Inl e \<or>
           STORAGE_TYPE (initial_globals w) = ''azure'' \<and>
             fst (azure_try (initial_globals w, w)) = Inl e"
  shows "STORAGE_TYPE (fst (boot w)) = ''local'' \<and>
         storage_type (health (fst (boot w))) = ''Local Storage'' \<and>
         storage (fst (boot w)) =
           (if importable w ''local_storage_service'' \<and>
               fst (LocalFileStorage_create_container
                      (LocalFileStorage_init ''uploads'' ''photos'') (w_fs w)) = Inr True
            then Some (UseLocal (LocalFileStorage_init ''uploads'' ''photos''))
            else None) \<and>
         storage_configured (health (fst (boot w))) =
           (importable w ''local_storage_service'' \<and>
            fst (LocalFileStorage_create_container
                   (LocalFileStorage_init ''uploads'' ''photos'') (w_fs w)) = Inr True)"
proof -
  from fallback_state [OF assms] obtain g1 w1 where
    s: "init_azure (init_aws (initial_globals w, w)) = (g1, w1)" and
    g: "STORAGE_TYPE g1 = ''local''" "storage_type_name g1 = ''Local Storage''" and
    w: "w_fs w1 = w_fs w" "importable w1 = importable w"
    by blast
  have b: "boot w = init_local (g1, w1)" by (simp add: boot_def s)
  show ?thesis
    unfolding b health_def
    using init_local_outcome [OF g, of w1] w by simp
qed

lemma example_aws_try:
  "STORAGE_TYPE (initial_globals example_world) = ''aws''"
  "fst (aws_try (initial_globals example_world, example_world)) = Inl (ClientError ''403'')"
  "STORAGE_TYPE (initial_globals blocked_world) = ''aws''"
  "fst (aws_try (initial_globals blocked_world, blocked_world)) = Inl (ClientError ''403'')"
  by (simp_all add: initial_globals_def example_world_def blocked_world_def os_environ_get_def
        lower_def aws_try_def AWSS3Storage_init_def boto3_client_def s3_call_def example_s3_def
        AWSS3Storage_create_container_def head_bucket_def)

lemma blocked_create:
  "fst (LocalFileStorage_create_container (LocalFileStorage_init ''uploads'' ''photos'')
          blocked_fs) = Inl NotADirectoryError"
  by (simp add: LocalFileStorage_create_container_def LocalFileStorage_init_def blocked_fs_def
        example_fs_def os_path_join_def os_makedirs_def start_dir_def is_dir_def lookup_def)

theorem boot_fallback_to_local_witness:
  "STORAGE_TYPE (initial_globals example_world) = ''aws'' \<and>
   fst (aws_try (initial_globals example_world, example_world)) = Inl (ClientError ''403'') \<and>
   STORAGE_TYPE (fst (boot example_world)) = ''local'' \<and>
   health (fst (boot example_world)) =
     \<lparr>status = ''healthy'', storage_configured = True, storage_type = ''Local Storage''\<rparr> \<and>
   storage (fst (boot example_world)) = Some (UseLocal example_storage)"
proof -
  have c: "fst (LocalFileStorage_create_container
             (LocalFileStorage_init ''uploads'' ''photos'') (w_fs example_world)) = Inr True"
    using example_create by (simp add: example_world_def example_storage_def)
  have i: "importable example_world ''local_storage_service''"
    by (simp add: example_world_def)
  have "health (fst (boot example_world)) =
     \<lparr>status = ''healthy'', storage_configured = storage_configured (health (fst (boot example_world))),
      storage_type = storage_type (health (fst (boot example_world)))\<rparr>"
    by (simp add: health_def)
  then show ?thesis
    using boot_fallback_to_local [of example_world "ClientError ''403''"] example_aws_try c i
    by (simp add: example_storage_def)
qed

text \<open>
  Claim C2 as stated fails where the local backend cannot start either: S3 refuses the
  credentials, and \<^verbatim>\<open>uploads\<close> is a regular file, so no handle is left.
\<close>

theorem boot_fallback_counterexample:
  "STORAGE_TYPE (initial_globals blocked_world) = ''aws'' \<and>
   fst (aws_try (initial_globals blocked_world, blocked_world)) = Inl (ClientError ''403'') \<and>
   storage (fst (boot blocked_world)) = None \<and>
   health (fst (boot blocked_world)) =
     \<lparr>status = ''healthy'', storage_configured = False, storage_type = ''Local Storage''\<rparr>"
proof -
  have g: "STORAGE_TYPE (initial_globals blocked_world) = ''aws'' \<and>
      fst (aws_try (initial_globals blocked_world, blocked_world)) = Inl (ClientError ''403'') \<or>
      STORAGE_TYPE (initial_globals blocked_world) = ''azure'' \<and>
      fst (azure_try (initial_globals blocked_world, blocked_world)) = Inl (ClientError ''403'')"
    using example_aws_try by simp
  from fallback_state [OF g] obtain g1 w1 where
    s: "init_azure (init_aws (initial_globals blocked_world, blocked_world)) = (g1, w1)" and
    g1: "STORAGE_TYPE g1 = ''local''" "storage_type_name g1 = ''Local Storage''" and
    w1: "w_fs w1 = w_fs blocked_world" "importable w1 = importable blocked_world"
    by blast
  have b: "boot blocked_world = init_local (g1, w1)" by (simp add: boot_def s)
  have f: "w_fs blocked_world = blocked_fs" by (simp add: blocked_world_def)
  show ?thesis
    unfolding b health_def
    using init_local_outcome [OF g1, of w1] w1 blocked_create example_aws_try
    by (simp add: f)
qed

end
